theory Spec2Isabelle
  imports Complex_Main "HOL-Library.Char_ord" "HOL-Library.List_Lexorder"
begin

section \<open>Data model\<close>

text \<open>
  The enumerations of \<^verbatim>\<open>db/models.py\<close>.  The code stores them as strings; every
  value the orchestrator writes is one of the members listed here.
\<close>

datatype run_status = RunCreated | RunRunning | RunCompleted | RunFailed | RunCanceled

datatype step_status = Pending | Running | Completed | Failed | Skipped | Canceled

datatype failure_code =
  TIMEOUT | BUDGET_EXCEEDED | SCHEMA_ERROR | TOOL_NOT_ALLOWED | EXECUTION_ERROR
  | CANCELED | MAX_STEPS_EXCEEDED

datatype failure_mode = FmTimeout | FmSchemaError | FmLowConfidence | FmBudgetRisk | FmOther

datatype reflection_action = REPLANNED | ADJUSTED_PARAMETERS | TERMINATED

text \<open>Exceptions that leave a graph node and reach the handler of \<^verbatim>\<open>_run_loop\<close>.\<close>

datatype py_error = RuntimeError string | ZeroDivisionError | ProviderError string

text \<open>Timestamps (\<^verbatim>\<open>utc_now_iso\<close>) are readings of a clock, kept as numbers.\<close>

type_synonym timestamp = nat

datatype jval = JStr string | JInt int | JStrs "string list"

record structured_error =
  err_code :: failure_code
  err_message :: string
  err_details :: "(string \<times> jval) list"

record step_output =
  summary :: string
  confidence :: rat
  artifacts :: "(string \<times> string) list"

record node =
  node_id :: string
  node_name :: string
  description :: string
  depends_on :: "string list"
  n_status :: step_status
  last_output :: "step_output option"
  last_error :: "structured_error option"

text \<open>
  A contract is a dictionary read with \<^verbatim>\<open>contract.get(key, default)\<close>: every key may
  be absent.
\<close>

record contract =
  allowed_tools :: "string list option"
  timeout_s :: "int option"
  max_retries :: "int option"
  model_preference :: "string option"

definition empty_contract :: contract where
  "empty_contract =
     \<lparr>allowed_tools = None, timeout_s = None, max_retries = None, model_preference = None\<rparr>"

record dag =
  nodes :: "node list"
  edges :: "(string \<times> string) list"
  contracts :: "(string \<times> contract) list"
  planner_notes :: "string option"

definition empty_dag :: dag where
  "empty_dag = \<lparr>nodes = [], edges = [], contracts = [], planner_notes = None\<rparr>"

record constraints =
  budget_usd :: rat
  c_timeout_s :: int
  max_steps :: int
  reflection_interval_steps :: int

record stored_constraints =
  sc_budget_usd :: "rat option"
  sc_timeout_s :: "int option"
  sc_max_steps :: "int option"
  sc_reflection_interval_steps :: "int option"

record run_state =
  run_id :: string
  task :: string
  template_id :: "string option"
  constraints :: constraints
  dag :: dag
  step_counter :: int
  progress_made :: bool
  reflection_needed :: bool
  reflection_reason :: "string option"
  reflection_model_preference :: "string option"
  failure_mode :: "failure_mode option"
  should_finish :: bool
  finish_status :: "run_status option"
  finish_reason :: "string option"
  run_started_monotonic :: rat
  request_id :: string

record cost_estimate =
  ce_prompt_tokens :: int
  ce_completion_tokens :: int
  ce_total_tokens :: int
  ce_usd :: rat

record cost_payload =
  cp_provider :: string
  cp_model :: string
  cp_prompt_tokens :: int
  cp_completion_tokens :: int
  cp_total_tokens :: int
  cp_usd :: rat

record step_input =
  in_task :: string
  in_node :: node
  in_request_id :: "string option"

record step_row =
  s_id :: string
  s_run_id :: string
  s_node_id :: string
  s_status :: step_status
  s_attempts :: int
  s_max_retries :: int
  s_started_at :: "timestamp option"
  s_ended_at :: "timestamp option"
  s_input :: step_input
  s_output :: "step_output option"
  s_error :: "structured_error option"
  s_cost :: "cost_payload option"
  s_logs :: "string list"

record diagnostic =
  dg_reason :: string
  dg_failure_mode :: failure_mode
  dg_action :: reflection_action

datatype payload =
  RunStartedP string timestamp
  | PlanningStartedP string "string option"
  | PlanningFinishedP nat nat string
  | StepStartedP string int
  | StepFinishedP string cost_payload
  | StepRetryScheduledP string int int rat structured_error
  | StepFailedP string structured_error
  | ReplannedP string failure_mode
  | ReflectionP diagnostic
  | RunRetryRequestedP "string option" string
  | RunFinishedP run_status string

text \<open>
  An event row.  Its \<^verbatim>\<open>id\<close> (a fresh uuid) and \<^verbatim>\<open>created_at\<close> are left out: the
  events table is kept in insertion order, which is the order \<^verbatim>\<open>(created_at, id)\<close>
  gives within one worker.
\<close>

record event =
  ev_run_id :: string
  ev_step_id :: "string option"
  ev_type :: string
  ev_payload :: payload

record ledger_row =
  cl_run_id :: string
  cl_step_id :: "string option"
  cl_app :: string
  cl_provider :: string
  cl_model :: string
  cl_prompt_tokens :: int
  cl_completion_tokens :: int
  cl_total_tokens :: int
  cl_usd :: rat
  cl_phase :: string

record template =
  tpl_id :: string
  tpl_name :: string
  tpl_nodes :: "node list"
  tpl_edges :: "(string \<times> string) list"
  tpl_contracts :: "(string \<times> contract) list"
  tpl_updated_at :: timestamp

record run_row =
  r_id :: string
  r_task :: string
  r_template_id :: "string option"
  r_status :: run_status
  r_constraints :: stored_constraints
  r_dag :: dag
  r_diagnostics :: "diagnostic list"
  r_created_at :: timestamp
  r_started_at :: "timestamp option"
  r_ended_at :: "timestamp option"
  total_prompt_tokens :: int
  total_completion_tokens :: int
  total_tokens :: int
  total_usd :: rat
  cancel_requested :: bool

text \<open>An \<^verbatim>\<open>asyncio.Queue\<close>: its bound and its buffered items, oldest first.\<close>

record equeue =
  q_maxsize :: int
  q_items :: "event list"

record settings =
  llm_cheap_model :: string
  llm_default_model :: string
  llm_expensive_model :: string
  llm_cheap_prompt_per_1k :: rat
  llm_cheap_completion_per_1k :: rat
  llm_default_prompt_per_1k :: rat
  llm_default_completion_per_1k :: rat
  llm_expensive_prompt_per_1k :: rat
  llm_expensive_completion_per_1k :: rat
  default_run_budget_usd :: rat
  default_run_timeout_s :: int
  default_run_max_steps :: int
  default_reflection_interval_steps :: int
  cost_ledger_app :: string

text \<open>
  The shared mutable state: the tables of the \<^verbatim>\<open>Repository\<close> (\<open>runs\<close>, \<open>steps\<close>,
  \<open>events\<close>, \<open>cost_ledger\<close>, \<open>templates\<close>) and the subscriber map of the
  \<^verbatim>\<open>EventBroker\<close>.  The steps table is a list of rows; \<^verbatim>\<open>UNIQUE(run_id, node_id)\<close>
  is the key \<open>upsert_step\<close> resolves conflicts on.  The primary key on \<^verbatim>\<open>steps.id\<close> is
  not modelled: an id is either a fresh uuid or the id of the row being replaced.
\<close>

record world =
  runs :: "string \<rightharpoonup> run_row"
  steps :: "step_row list"
  events :: "event list"
  cost_ledger :: "ledger_row list"
  templates :: "template list"
  subscribers :: "string \<Rightarrow> equeue list"

section \<open>Model provider\<close>

datatype prompt =
  PlannerPrompt string string
  | StepPrompt string string string "(string \<times> step_output) list"

record llm_request =
  rq_prompt :: prompt
  rq_model :: string
  rq_timeout_s :: int
  rq_phase :: string

record llm_call_result =
  lr_provider :: string
  lr_model :: string
  lr_content :: string
  lr_prompt_tokens :: int
  lr_completion_tokens :: int

text \<open>
  What one call of \<^verbatim>\<open>LLMProvider.generate\<close> does: it returns, it runs into the
  deadline, or it raises.  The provider of a tick is a function of the request.
\<close>

datatype llm_result = LLMOk llm_call_result | LLMTimeout string | LLMRaise string

type_synonym provider = "llm_request \<Rightarrow> llm_result"

section \<open>Repository\<close>

definition get_run :: "world \<Rightarrow> string \<Rightarrow> run_row option" where
  "get_run w rid = runs w rid"

text \<open>
  \<^verbatim>\<open>update_run(run_id, **fields)\<close>: the columns the callers of this repository name.
  An \<^verbatim>\<open>UPDATE\<close> of a missing row changes nothing.
\<close>

datatype run_field =
  SetStatus run_status
  | SetStartedAt "timestamp option"
  | SetEndedAt "timestamp option"
  | SetCancelRequested bool
  | SetDag dag
  | SetDiagnostics "diagnostic list"

fun set_field :: "run_field \<Rightarrow> run_row \<Rightarrow> run_row" where
  "set_field (SetStatus v) r = r\<lparr>r_status := v\<rparr>"
| "set_field (SetStartedAt v) r = r\<lparr>r_started_at := v\<rparr>"
| "set_field (SetEndedAt v) r = r\<lparr>r_ended_at := v\<rparr>"
| "set_field (SetCancelRequested v) r = r\<lparr>cancel_requested := v\<rparr>"
| "set_field (SetDag v) r = r\<lparr>r_dag := v\<rparr>"
| "set_field (SetDiagnostics v) r = r\<lparr>r_diagnostics := v\<rparr>"

definition update_run :: "world \<Rightarrow> string \<Rightarrow> run_field list \<Rightarrow> world" where
  "update_run w rid flds =
     (if flds = [] then w
      else case runs w rid of
             None \<Rightarrow> w
           | Some r \<Rightarrow> w\<lparr>runs := (runs w)(rid \<mapsto> fold set_field flds r)\<rparr>)"

definition request_cancel_run :: "world \<Rightarrow> string \<Rightarrow> world" where
  "request_cancel_run w rid = update_run w rid [SetCancelRequested True]"

text \<open>
  \<^verbatim>\<open>create_run\<close>: the \<^verbatim>\<open>INSERT\<close> names no counter column, so the four totals and
  \<^verbatim>\<open>cancel_requested\<close> take their default 0.  Inserting an id twice violates the
  primary key (no row is written).
\<close>

definition create_run ::
  "world \<Rightarrow> string \<Rightarrow> string \<Rightarrow> string option \<Rightarrow> stored_constraints \<Rightarrow> timestamp
     \<Rightarrow> world option" where
  "create_run w rid tsk tid cons now =
     (case runs w rid of
        Some _ \<Rightarrow> None
      | None \<Rightarrow>
          Some (w\<lparr>runs := (runs w)(rid \<mapsto>
            \<lparr>r_id = rid, r_task = tsk, r_template_id = tid, r_status = RunCreated,
             r_constraints = cons, r_dag = empty_dag, r_diagnostics = [],
             r_created_at = now, r_started_at = None, r_ended_at = None,
             total_prompt_tokens = 0, total_completion_tokens = 0, total_tokens = 0,
             total_usd = 0, cancel_requested = False\<rparr>)\<rparr>))"

text \<open>
  \<^verbatim>\<open>increment_run_totals\<close>: one \<^verbatim>\<open>UPDATE\<close> that adds to the four counters of the row.
  The sums are those of unbounded integers and of rationals; the columns of the database
  hold 64-bit integers and a binary floating point number (see \<open>increment_in_range\<close>
  below for the integers).
\<close>

definition increment_run_totals :: "world \<Rightarrow> string \<Rightarrow> int \<Rightarrow> int \<Rightarrow> int \<Rightarrow> rat \<Rightarrow> world" where
  "increment_run_totals w rid prompt_tokens completion_tokens tokens usd =
     (case runs w rid of
        None \<Rightarrow> w
      | Some r \<Rightarrow>
          w\<lparr>runs := (runs w)(rid \<mapsto>
            r\<lparr>total_prompt_tokens := total_prompt_tokens r + prompt_tokens,
              total_completion_tokens := total_completion_tokens r + completion_tokens,
              total_tokens := total_tokens r + tokens,
              total_usd := total_usd r + usd\<rparr>)\<rparr>)"

definition append_run_diagnostic :: "world \<Rightarrow> string \<Rightarrow> diagnostic \<Rightarrow> world" where
  "append_run_diagnostic w rid d =
     (case get_run w rid of
        None \<Rightarrow> w
      | Some r \<Rightarrow> update_run w rid [SetDiagnostics (r_diagnostics r @ [d])])"

definition same_key :: "step_row \<Rightarrow> step_row \<Rightarrow> bool" where
  "same_key p r \<longleftrightarrow> s_run_id r = s_run_id p \<and> s_node_id r = s_node_id p"

text \<open>
  \<^verbatim>\<open>INSERT ... ON CONFLICT(run_id, node_id) DO UPDATE\<close>: a row with the payload's key
  takes every column of the payload, otherwise the payload is appended.
\<close>

definition upsert_step :: "world \<Rightarrow> step_row \<Rightarrow> world" where
  "upsert_step w p =
     (if \<exists>r \<in> set (steps w). same_key p r
      then w\<lparr>steps := map (\<lambda>r. if same_key p r then p else r) (steps w)\<rparr>
      else w\<lparr>steps := steps w @ [p]\<rparr>)"

definition get_step :: "world \<Rightarrow> string \<Rightarrow> step_row option" where
  "get_step w sid = find (\<lambda>r. s_id r = sid) (steps w)"

definition get_step_by_node :: "world \<Rightarrow> string \<Rightarrow> string \<Rightarrow> step_row option" where
  "get_step_by_node w rid nid = find (\<lambda>r. s_run_id r = rid \<and> s_node_id r = nid) (steps w)"

text \<open>\<^verbatim>\<open>ORDER BY started_at\<close>: SQLite puts \<^verbatim>\<open>NULL\<close> first.\<close>

definition started_rank :: "step_row \<Rightarrow> nat" where
  "started_rank r = (case s_started_at r of None \<Rightarrow> 0 | Some t \<Rightarrow> Suc t)"

definition list_steps :: "world \<Rightarrow> string \<Rightarrow> step_row list" where
  "list_steps w rid = sort_key started_rank (filter (\<lambda>r. s_run_id r = rid) (steps w))"

definition reset_step :: "world \<Rightarrow> string \<Rightarrow> string \<Rightarrow> bool \<times> world" where
  "reset_step w rid sid =
     (let hit = (\<lambda>r. s_run_id r = rid \<and> s_id r = sid) in
      (\<exists>r \<in> set (steps w). hit r,
       w\<lparr>steps := map (\<lambda>r. if hit r
                             then r\<lparr>s_status := Pending, s_attempts := 0, s_started_at := None,
                                    s_ended_at := None, s_output := None, s_error := None,
                                    s_cost := None\<rparr>
                             else r) (steps w)\<rparr>))"

text \<open>
  \<^verbatim>\<open>reset_failed_steps\<close>: the \<^verbatim>\<open>UPDATE\<close> sets status, started_at, ended_at, output,
  error and cost; it does not name \<^verbatim>\<open>attempts\<close>.  It returns the row count.
\<close>

definition reset_failed_steps :: "world \<Rightarrow> string \<Rightarrow> nat \<times> world" where
  "reset_failed_steps w rid =
     (let hit = (\<lambda>r. s_run_id r = rid \<and> s_status r = Failed) in
      (length (filter hit (steps w)),
       w\<lparr>steps := map (\<lambda>r. if hit r
                             then r\<lparr>s_status := Pending, s_started_at := None,
                                    s_ended_at := None, s_output := None, s_error := None,
                                    s_cost := None\<rparr>
                             else r) (steps w)\<rparr>))"

definition create_event :: "world \<Rightarrow> event \<Rightarrow> world" where
  "create_event w e = w\<lparr>events := events w @ [e]\<rparr>"

definition create_cost_entry :: "world \<Rightarrow> ledger_row \<Rightarrow> world" where
  "create_cost_entry w row = w\<lparr>cost_ledger := cost_ledger w @ [row]\<rparr>"


definition get_workflow_template :: "world \<Rightarrow> string \<Rightarrow> template option" where
  "get_workflow_template w tid = find (\<lambda>t. tpl_id t = tid) (templates w)"

text \<open>
  \<^verbatim>\<open>ORDER BY updated_at DESC\<close>: templates with the same \<^verbatim>\<open>updated_at\<close> come in the
  order of the table (the sort is stable).
\<close>

definition list_workflow_templates :: "world \<Rightarrow> template list" where
  "list_workflow_templates w = sort_key (\<lambda>t. - int (tpl_updated_at t)) (templates w)"

section \<open>Event broker\<close>

definition q_full :: "equeue \<Rightarrow> bool" where
  "q_full q = (if q_maxsize q \<le> 0 then False else q_maxsize q \<le> int (length (q_items q)))"

text \<open>\<open>None\<close> is \<^verbatim>\<open>QueueEmpty\<close>.\<close>

definition get_nowait :: "equeue \<Rightarrow> (event \<times> equeue) option" where
  "get_nowait q =
     (case q_items q of [] \<Rightarrow> None | x # xs \<Rightarrow> Some (x, q\<lparr>q_items := xs\<rparr>))"

text \<open>\<open>None\<close> is \<^verbatim>\<open>QueueFull\<close>.\<close>

definition put_nowait :: "equeue \<Rightarrow> event \<Rightarrow> equeue option" where
  "put_nowait q e = (if q_full q then None else Some (q\<lparr>q_items := q_items q @ [e]\<rparr>))"

text \<open>The body of the loop of \<^verbatim>\<open>publish\<close>, for one subscriber queue.\<close>

definition publish_queue :: "event \<Rightarrow> equeue \<Rightarrow> equeue" where
  "publish_queue e q =
     (let q1 = (if q_full q
                then (case get_nowait q of None \<Rightarrow> q | Some (_, q') \<Rightarrow> q')
                else q)
      in case put_nowait q1 e of None \<Rightarrow> q1 | Some q2 \<Rightarrow> q2)"

definition publish :: "world \<Rightarrow> event \<Rightarrow> world" where
  "publish w e =
     w\<lparr>subscribers :=
         (subscribers w)(ev_run_id e := map (publish_queue e) (subscribers w (ev_run_id e)))\<rparr>"

text \<open>\<^verbatim>\<open>subscribe\<close> registers a new, empty queue of capacity 256.\<close>

definition subscribe :: "world \<Rightarrow> string \<Rightarrow> world" where
  "subscribe w rid =
     w\<lparr>subscribers :=
         (subscribers w)(rid := subscribers w rid @ [\<lparr>q_maxsize = 256, q_items = []\<rparr>])\<rparr>"

text \<open>\<^verbatim>\<open>_emit_event\<close> of the orchestrator: store the event, then publish it.\<close>

definition emit_event :: "world \<Rightarrow> event \<Rightarrow> world" where
  "emit_event w e = publish (create_event w e) e"

section \<open>Model router and cost estimator\<close>

datatype workload_type = PLANNER | EXECUTOR | REFLECTION | SYNTHESIS

definition for_workload :: "settings \<Rightarrow> workload_type \<Rightarrow> string" where
  "for_workload cfg workload =
     (if workload = PLANNER then llm_cheap_model cfg
      else if workload \<in> {REFLECTION, SYNTHESIS} then llm_expensive_model cfg
      else llm_default_model cfg)"

definition for_step :: "settings \<Rightarrow> string \<Rightarrow> workload_type \<Rightarrow> string" where
  "for_step cfg pref fallback_workload =
     (if pref = ''cheap'' then llm_cheap_model cfg
      else if pref = ''expensive'' then llm_expensive_model cfg
      else if pref = ''default'' then llm_default_model cfg
      else for_workload cfg fallback_workload)"

definition rates_for_model :: "settings \<Rightarrow> string \<Rightarrow> rat \<times> rat" where
  "rates_for_model cfg model =
     (if model = llm_cheap_model cfg
      then (llm_cheap_prompt_per_1k cfg, llm_cheap_completion_per_1k cfg)
      else if model = llm_expensive_model cfg
      then (llm_expensive_prompt_per_1k cfg, llm_expensive_completion_per_1k cfg)
      else (llm_default_prompt_per_1k cfg, llm_default_completion_per_1k cfg))"

text \<open>
  \<^verbatim>\<open>round(usd, 8)\<close> in exact arithmetic (ties to even); the binary floating point of
  the source is not modelled.
\<close>

definition round_half_even :: "rat \<Rightarrow> int" where
  "round_half_even x =
     (let f = \<lfloor>x\<rfloor>; d = x - of_int f in
      if d < 1 / 2 then f else if 1 / 2 < d then f + 1 else if even f then f else f + 1)"

definition round8 :: "rat \<Rightarrow> rat" where
  "round8 x = of_int (round_half_even (x * 100000000)) / 100000000"

definition estimate :: "settings \<Rightarrow> string \<Rightarrow> int \<Rightarrow> int \<Rightarrow> cost_estimate" where
  "estimate cfg model prompt_tokens completion_tokens =
     (let (prompt_rate, completion_rate) = rates_for_model cfg model;
          usd = (of_int prompt_tokens / 1000) * prompt_rate
                + (of_int completion_tokens / 1000) * completion_rate
      in \<lparr>ce_prompt_tokens = prompt_tokens, ce_completion_tokens = completion_tokens,
          ce_total_tokens = prompt_tokens + completion_tokens, ce_usd = round8 usd\<rparr>)"

section \<open>Contracts: output validation\<close>

datatype output_model = PlannerStepOutput | ExecutorStepOutput | GenericStepOutput

definition get_output_model :: "string \<Rightarrow> output_model" where
  "get_output_model nid =
     (case map_of [(''understand_task'', PlannerStepOutput),
                   (''execute_task'', ExecutorStepOutput),
                   (''synthesize_results'', GenericStepOutput)] nid of
        None \<Rightarrow> GenericStepOutput
      | Some m \<Rightarrow> m)"

text \<open>
  The three output models declare the same fields; on an output whose summary is a
  string and whose artifacts are a dictionary the remaining check is the range of
  \<^verbatim>\<open>confidence\<close>.  \<open>Inl\<close> stands for the validator's message, whose wording
  (\<^verbatim>\<open>str(exc)\<close> of the validation error) is not reproduced.
\<close>

definition validate_output_with_contract :: "output_model \<Rightarrow> step_output \<Rightarrow> string + step_output" where
  "validate_output_with_contract m out =
     (if 0 \<le> confidence out \<and> confidence out \<le> 1 then Inr out
      else Inl ''confidence out of range'')"

section \<open>Executor\<close>

text \<open>
  \<^verbatim>\<open>node_map = {node["id"]: node for node in nodes}\<close>: a later node with the same id
  replaces an earlier one.
\<close>

definition node_map :: "node list \<Rightarrow> (string \<rightharpoonup> node)" where
  "node_map ns = fold (\<lambda>n m. m(node_id n \<mapsto> n)) ns Map.empty"

text \<open>\<^verbatim>\<open>node_map.get(dep, {}).get("status") == "completed"\<close>\<close>

definition dep_completed :: "(string \<rightharpoonup> node) \<Rightarrow> string \<Rightarrow> bool" where
  "dep_completed m dep = (case m dep of None \<Rightarrow> False | Some d \<Rightarrow> n_status d = Completed)"

text \<open>The loop of \<^verbatim>\<open>_next_runnable_node\<close>; the result is the position of the node.\<close>

fun scan_runnable :: "(string \<rightharpoonup> node) \<Rightarrow> node list \<Rightarrow> nat \<Rightarrow> nat option" where
  "scan_runnable m [] i = None"
| "scan_runnable m (n # ns) i =
     (if n_status n \<noteq> Pending then scan_runnable m ns (Suc i)
      else if list_all (dep_completed m) (depends_on n) then Some i
      else scan_runnable m ns (Suc i))"

definition next_runnable_node :: "dag \<Rightarrow> nat option" where
  "next_runnable_node g = scan_runnable (node_map (nodes g)) (nodes g) 0"

definition build_prompt :: "run_state \<Rightarrow> node \<Rightarrow> prompt" where
  "build_prompt st nd =
     StepPrompt (task st) (node_id nd) (description nd)
       (List.map_filter
          (\<lambda>c. case last_output c of None \<Rightarrow> None | Some out \<Rightarrow> Some (node_id c, out))
          (nodes (dag st)))"

definition map_failure_mode :: "failure_code \<Rightarrow> failure_mode" where
  "map_failure_mode code =
     (if code = TIMEOUT then FmTimeout
      else if code = SCHEMA_ERROR then FmSchemaError
      else FmOther)"

text \<open>Python's \<^verbatim>\<open>2 ** e\<close> on an integer exponent: a negative exponent gives a fraction.\<close>

definition py_pow2 :: "int \<Rightarrow> rat" where
  "py_pow2 e = (if 0 \<le> e then 2 ^ nat e else 1 / 2 ^ nat (- e))"

text \<open>Assignment to keys of the node object at position \<open>i\<close> of \<^verbatim>\<open>state["dag"]["nodes"]\<close>.\<close>

definition set_node :: "run_state \<Rightarrow> nat \<Rightarrow> (node \<Rightarrow> node) \<Rightarrow> run_state" where
  "set_node st i f = st\<lparr>dag := (dag st)\<lparr>nodes := (nodes (dag st))[i := f (nodes (dag st) ! i)]\<rparr>\<rparr>"

text \<open>
  \<^verbatim>\<open>_handle_step_error\<close>.  The node is passed by its position \<open>i\<close>; \<open>ended_at\<close> is the
  clock reading the function takes.  The final \<^verbatim>\<open>asyncio.sleep(backoff_s)\<close> of the retry
  branch changes no state.
\<close>

definition handle_step_error ::
  "run_state \<times> world \<Rightarrow> string \<Rightarrow> nat \<Rightarrow> int \<Rightarrow> int \<Rightarrow> timestamp \<Rightarrow> structured_error
     \<Rightarrow> timestamp \<Rightarrow> run_state \<times> world" where
  "handle_step_error sw step_id i attempts max_r started_at err ended_at =
     (let (st, w) = sw;
          nid = node_id (nodes (dag st) ! i);
          st1 = st\<lparr>step_counter := step_counter st + 1\<rparr>
      in if attempts \<le> max_r then
           (let backoff_s = min (py_pow2 (attempts - 1)) 8;
                st2 = set_node st1 i (\<lambda>n. n\<lparr>n_status := Pending, last_error := Some err\<rparr>);
                w1 = upsert_step w
                       \<lparr>s_id = step_id, s_run_id = run_id st2, s_node_id = nid,
                        s_status = Pending, s_attempts = attempts, s_max_retries = max_r,
                        s_started_at = Some started_at, s_ended_at = Some ended_at,
                        s_input = \<lparr>in_task = task st2, in_node = nodes (dag st2) ! i,
                                   in_request_id = None\<rparr>,
                        s_output = None, s_error = Some err, s_cost = None, s_logs = []\<rparr>;
                w2 = update_run w1 (run_id st2) [SetDag (dag st2)];
                w3 = emit_event w2
                       \<lparr>ev_run_id = run_id st2, ev_step_id = Some step_id,
                        ev_type = ''step_retry_scheduled'',
                        ev_payload = StepRetryScheduledP nid attempts max_r backoff_s err\<rparr>
            in (st2, w3))
         else
           (let st2 = set_node st1 i (\<lambda>n. n\<lparr>n_status := Failed, last_error := Some err\<rparr>);
                w1 = upsert_step w
                       \<lparr>s_id = step_id, s_run_id = run_id st2, s_node_id = nid,
                        s_status = Failed, s_attempts = attempts, s_max_retries = max_r,
                        s_started_at = Some started_at, s_ended_at = Some ended_at,
                        s_input = \<lparr>in_task = task st2, in_node = nodes (dag st2) ! i,
                                   in_request_id = None\<rparr>,
                        s_output = None, s_error = Some err, s_cost = None, s_logs = []\<rparr>;
                w2 = update_run w1 (run_id st2) [SetDag (dag st2)];
                st3 = st2\<lparr>reflection_needed := True,
                          reflection_reason := Some (''Step '' @ nid @ '' failed''),
                          failure_mode := Some (map_failure_mode (err_code err))\<rparr>;
                w3 = emit_event w2
                       \<lparr>ev_run_id = run_id st3, ev_step_id = Some step_id,
                        ev_type = ''step_failed'', ev_payload = StepFailedP nid err\<rparr>
            in (st3, w3)))"

text \<open>
  \<^verbatim>\<open>state.get("reflection_model_preference") or contract.get("model_preference", "default")\<close>:
  \<^verbatim>\<open>None\<close> and the empty string are falsy.
\<close>

definition step_model_preference :: "run_state \<Rightarrow> contract \<Rightarrow> string" where
  "step_model_preference st c =
     (case reflection_model_preference st of
        Some p \<Rightarrow> if p \<noteq> [] then p
                  else (case model_preference c of None \<Rightarrow> ''default'' | Some q \<Rightarrow> q)
      | None \<Rightarrow> (case model_preference c of None \<Rightarrow> ''default'' | Some q \<Rightarrow> q))"

definition step_model :: "settings \<Rightarrow> run_state \<Rightarrow> contract \<Rightarrow> string" where
  "step_model cfg st c = for_step cfg (step_model_preference st c) EXECUTOR"

text \<open>
  The \<^verbatim>\<open>try\<close> block of \<^verbatim>\<open>execute_next\<close> up to the validated output.  \<open>Inl\<close> is the
  \<^verbatim>\<open>StepExecutionError\<close> that reaches \<^verbatim>\<open>_handle_step_error\<close> (its code, message and
  details), built by the \<^verbatim>\<open>except\<close> clause that catches it.
\<close>

definition try_step ::
  "settings \<Rightarrow> provider \<Rightarrow> run_state \<Rightarrow> node \<Rightarrow> contract
     \<Rightarrow> structured_error + (llm_call_result \<times> string \<times> step_output)" where
  "try_step cfg llm st nd c =
     (let tools = (case allowed_tools c of None \<Rightarrow> [''llm.generate''] | Some ts \<Rightarrow> ts) in
      if ''llm.generate'' \<notin> set tools
      then Inl \<lparr>err_code = TOOL_NOT_ALLOWED,
                err_message = ''Contract does not allow llm.generate'',
                err_details = [(''allowed_tools'', JStrs tools)]\<rparr>
      else
        (let pref = step_model_preference st c;
             model = step_model cfg st c;
             tmo = (case timeout_s c of None \<Rightarrow> 30 | Some t \<Rightarrow> t)
         in case llm \<lparr>rq_prompt = build_prompt st nd, rq_model = model, rq_timeout_s = tmo,
                      rq_phase = ''execute_step''\<rparr> of
              LLMTimeout msg \<Rightarrow>
                Inl \<lparr>err_code = TIMEOUT, err_message = ''Step execution timed out'',
                     err_details = [(''timeout_s'', JInt tmo), (''raw_error'', JStr msg)]\<rparr>
            | LLMRaise msg \<Rightarrow>
                Inl \<lparr>err_code = EXECUTION_ERROR, err_message = ''Unhandled execution error'',
                     err_details = [(''raw_error'', JStr msg)]\<rparr>
            | LLMOk resp \<Rightarrow>
                (let out = \<lparr>summary = lr_content resp,
                            confidence = (if pref = ''expensive'' then 85 / 100 else 7 / 10),
                            artifacts = [(''model'', lr_model resp),
                                         (''provider'', lr_provider resp),
                                         (''node_id'', node_id nd)]\<rparr>
                 in case validate_output_with_contract (get_output_model (node_id nd)) out of
                      Inl verr \<Rightarrow>
                        Inl \<lparr>err_code = SCHEMA_ERROR,
                             err_message = ''Step output schema validation failed'',
                             err_details = [(''validation_error'', JStr verr)]\<rparr>
                    | Inr validated \<Rightarrow> Inr (resp, model, validated))))"

text \<open>The rest of the \<^verbatim>\<open>try\<close> block: the bookkeeping of a successful attempt.\<close>

definition record_success ::
  "settings \<Rightarrow> run_state \<times> world \<Rightarrow> string \<Rightarrow> nat \<Rightarrow> int \<Rightarrow> int \<Rightarrow> timestamp \<Rightarrow> timestamp
     \<Rightarrow> string \<Rightarrow> llm_call_result \<Rightarrow> string \<Rightarrow> step_output \<Rightarrow> run_state \<times> world" where
  "record_success cfg sw step_id i attempts max_r started_at ended_at req_id resp model validated =
     (let (st, w) = sw;
          nid = node_id (nodes (dag st) ! i);
          cost = estimate cfg model (lr_prompt_tokens resp) (lr_completion_tokens resp);
          cost_pl = \<lparr>cp_provider = lr_provider resp, cp_model = model,
                     cp_prompt_tokens = ce_prompt_tokens cost,
                     cp_completion_tokens = ce_completion_tokens cost,
                     cp_total_tokens = ce_total_tokens cost, cp_usd = ce_usd cost\<rparr>;
          w1 = upsert_step w
                 \<lparr>s_id = step_id, s_run_id = run_id st, s_node_id = nid,
                  s_status = Completed, s_attempts = attempts, s_max_retries = max_r,
                  s_started_at = Some started_at, s_ended_at = Some ended_at,
                  s_input = \<lparr>in_task = task st, in_node = nodes (dag st) ! i,
                             in_request_id = Some req_id\<rparr>,
                  s_output = Some validated, s_error = None, s_cost = Some cost_pl,
                  s_logs = []\<rparr>;
          w2 = create_cost_entry w1
                 \<lparr>cl_run_id = run_id st, cl_step_id = Some step_id,
                  cl_app = cost_ledger_app cfg, cl_provider = lr_provider resp,
                  cl_model = model, cl_prompt_tokens = ce_prompt_tokens cost,
                  cl_completion_tokens = ce_completion_tokens cost,
                  cl_total_tokens = ce_total_tokens cost, cl_usd = ce_usd cost,
                  cl_phase = ''step_execution''\<rparr>;
          w3 = increment_run_totals w2 (run_id st) (ce_prompt_tokens cost)
                 (ce_completion_tokens cost) (ce_total_tokens cost) (ce_usd cost);
          st1 = set_node st i
                  (\<lambda>n. n\<lparr>n_status := Completed, last_output := Some validated,
                          last_error := None\<rparr>);
          w4 = update_run w3 (run_id st1) [SetDag (dag st1)];
          st2 = st1\<lparr>step_counter := step_counter st1 + 1\<rparr>;
          w5 = emit_event w4
                 \<lparr>ev_run_id = run_id st2, ev_step_id = Some step_id,
                  ev_type = ''step_finished'', ev_payload = StepFinishedP nid cost_pl\<rparr>
      in (st2, w5))"

text \<open>
  \<^verbatim>\<open>execute_next\<close>, one executor tick.  \<open>llm\<close> is the provider of this tick,
  \<open>fresh_uuid\<close> the value \<^verbatim>\<open>uuid.uuid4()\<close> would give, \<open>t_start\<close> and \<open>t_end\<close> the two
  clock readings of the tick.
\<close>

definition execute_next ::
  "settings \<Rightarrow> provider \<Rightarrow> string \<Rightarrow> timestamp \<Rightarrow> timestamp \<Rightarrow> string
     \<Rightarrow> run_state \<times> world \<Rightarrow> run_state \<times> world" where
  "execute_next cfg llm fresh_uuid t_start t_end req_id sw =
     (let (st, w) = sw in
      case next_runnable_node (dag st) of
        None \<Rightarrow> (st\<lparr>progress_made := False\<rparr>, w)
      | Some i \<Rightarrow>
          (let st1 = st\<lparr>progress_made := True\<rparr>;
               nid = node_id (nodes (dag st1) ! i);
               c = (case map_of (contracts (dag st1)) nid of
                      None \<Rightarrow> empty_contract | Some c \<Rightarrow> c);
               existing_step = get_step_by_node w (run_id st1) nid;
               step_id = (case existing_step of Some r \<Rightarrow> s_id r | None \<Rightarrow> fresh_uuid);
               attempts = (case existing_step of Some r \<Rightarrow> s_attempts r + 1 | None \<Rightarrow> 1);
               max_r = (case max_retries c of None \<Rightarrow> 2 | Some m \<Rightarrow> m);
               st2 = set_node st1 i (\<lambda>n. n\<lparr>n_status := Running\<rparr>);
               w1 = update_run w (run_id st2) [SetDag (dag st2)];
               w2 = upsert_step w1
                      \<lparr>s_id = step_id, s_run_id = run_id st2, s_node_id = nid,
                       s_status = Running, s_attempts = attempts, s_max_retries = max_r,
                       s_started_at = Some t_start, s_ended_at = None,
                       s_input = \<lparr>in_task = task st2, in_node = nodes (dag st2) ! i,
                                  in_request_id = Some req_id\<rparr>,
                       s_output = None, s_error = None, s_cost = None, s_logs = []\<rparr>;
               w3 = emit_event w2
                      \<lparr>ev_run_id = run_id st2, ev_step_id = Some step_id,
                       ev_type = ''step_started'', ev_payload = StepStartedP nid attempts\<rparr>
           in case try_step cfg llm st2 (nodes (dag st2) ! i) c of
                Inl err \<Rightarrow>
                  handle_step_error (st2, w3) step_id i attempts max_r t_start err t_end
              | Inr (resp, model, validated) \<Rightarrow>
                  record_success cfg (st2, w3) step_id i attempts max_r t_start t_end req_id
                    resp model validated))"

section \<open>Monitor\<close>

text \<open>Python's \<^verbatim>\<open>int(x)\<close> on a number: truncation towards zero.\<close>

definition py_int :: "rat \<Rightarrow> int" where
  "py_int x = (if 0 \<le> x then \<lfloor>x\<rfloor> else \<lceil>x\<rceil>)"

fun scan_has_runnable :: "(string \<rightharpoonup> node) \<Rightarrow> node list \<Rightarrow> bool" where
  "scan_has_runnable m [] = False"
| "scan_has_runnable m (n # ns) =
     (if n_status n \<noteq> Pending then scan_has_runnable m ns
      else if list_all (dep_completed m) (depends_on n) then True
      else scan_has_runnable m ns)"

definition has_runnable_nodes :: "dag \<Rightarrow> bool" where
  "has_runnable_nodes g = scan_has_runnable (node_map (nodes g)) (nodes g)"

text \<open>
  \<^verbatim>\<open>MonitorService.evaluate\<close>.  \<open>mono_now\<close> is the reading of \<^verbatim>\<open>time.monotonic()\<close> the
  call takes.  The only exception the body can raise on a state built by \<^verbatim>\<open>_run_loop\<close>
  is the division by zero of \<^verbatim>\<open>step_counter % interval\<close>.
\<close>

definition evaluate :: "run_state \<Rightarrow> world \<Rightarrow> rat \<Rightarrow> py_error + run_state" where
  "evaluate st w mono_now =
     (case get_run w (run_id st) of
        None \<Rightarrow>
          Inr (st\<lparr>should_finish := True, finish_status := Some RunFailed,
                  finish_reason := Some ''run_missing''\<rparr>)
      | Some run \<Rightarrow>
          (let cons = constraints st;
               statuses = map n_status (nodes (dag st));
               elapsed = py_int (mono_now - run_started_monotonic st)
           in
           if cancel_requested run then
             Inr (st\<lparr>should_finish := True, finish_status := Some RunCanceled,
                     finish_reason := Some ''cancel_requested''\<rparr>)
           else if c_timeout_s cons \<le> elapsed then
             Inr (st\<lparr>should_finish := True, finish_status := Some RunFailed,
                     finish_reason := Some ''timeout'', reflection_needed := True,
                     reflection_reason := Some ''Run timeout exceeded'',
                     failure_mode := Some FmTimeout\<rparr>)
           else if budget_usd cons \<le> total_usd run then
             Inr (st\<lparr>should_finish := True, finish_status := Some RunFailed,
                     finish_reason := Some ''budget_exceeded'', reflection_needed := True,
                     reflection_reason := Some ''Budget cap exceeded'',
                     failure_mode := Some FmBudgetRisk\<rparr>)
           else if list_all (\<lambda>s. s \<in> {Completed, Skipped}) statuses \<and> statuses \<noteq> [] then
             Inr (st\<lparr>should_finish := True, finish_status := Some RunCompleted,
                     finish_reason := Some ''all_steps_completed''\<rparr>)
           else if \<not> has_runnable_nodes (dag st)
                   \<and> list_ex (\<lambda>s. s = Pending) statuses
                   \<and> \<not> list_ex (\<lambda>s. s = Running) statuses then
             Inr (st\<lparr>should_finish := True, finish_status := Some RunFailed,
                     finish_reason := Some ''dependency_deadlock'', reflection_needed := True,
                     reflection_reason := Some ''No runnable steps due to unmet dependencies'',
                     failure_mode :=
                       Some (case failure_mode st of None \<Rightarrow> FmOther | Some m \<Rightarrow> m)\<rparr>)
           else if \<not> list_ex (\<lambda>s. s \<in> {Pending, Running}) statuses
                   \<and> list_ex (\<lambda>s. s = Failed) statuses then
             Inr (st\<lparr>should_finish := True, finish_status := Some RunFailed,
                     finish_reason := Some ''steps_failed'', reflection_needed := True,
                     reflection_reason := Some ''One or more steps failed'',
                     failure_mode :=
                       Some (case failure_mode st of None \<Rightarrow> FmOther | Some m \<Rightarrow> m)\<rparr>)
           else if max_steps cons \<le> step_counter st then
             Inr (st\<lparr>should_finish := True, finish_status := Some RunFailed,
                     finish_reason := Some ''max_steps_exceeded'', reflection_needed := True,
                     reflection_reason := Some ''Max steps exceeded'',
                     failure_mode := Some FmOther\<rparr>)
           else if 0 < step_counter st then
             (if reflection_interval_steps cons = 0 then Inl ZeroDivisionError
              else if step_counter st mod reflection_interval_steps cons = 0
                      \<and> progress_made st then
                Inr (st\<lparr>reflection_needed := True,
                        reflection_reason := Some ''Periodic reflection boundary reached'',
                        failure_mode :=
                          Some (case failure_mode st of
                                  None \<Rightarrow> FmLowConfidence | Some m \<Rightarrow> m),
                        progress_made := False\<rparr>)
              else Inr st)
           else Inr st))"

section \<open>Reflection\<close>

definition decide_action :: "failure_mode \<Rightarrow> reflection_action" where
  "decide_action fm =
     (if fm \<in> {FmTimeout, FmBudgetRisk} then TERMINATED
      else if fm = FmSchemaError then REPLANNED
      else if fm = FmLowConfidence then ADJUSTED_PARAMETERS
      else TERMINATED)"

text \<open>\<^verbatim>\<open>adjacency.get(current, [])\<close>: the targets of the edges that leave \<open>cur\<close>, in order.\<close>

definition children :: "(string \<times> string) list \<Rightarrow> string \<Rightarrow> string list" where
  "children es cur = map snd (filter (\<lambda>e. fst e = cur) es)"

fun visit :: "string \<Rightarrow> string list \<times> string list \<Rightarrow> string list \<times> string list" where
  "visit child (seen, queue) =
     (if child \<in> set seen then (seen, queue) else (child # seen, queue @ [child]))"

text \<open>The \<^verbatim>\<open>while queue\<close> loop of \<^verbatim>\<open>_skip_failed_descendants\<close>; the result is \<^verbatim>\<open>seen\<close>.\<close>

function bfs :: "(string \<times> string) list \<Rightarrow> string list \<Rightarrow> string list \<Rightarrow> string list" where
  "bfs es seen [] = seen"
| "bfs es seen (cur # rest) =
     (case fold visit (children es cur) (seen, rest) of
        (seen', queue') \<Rightarrow> bfs es seen' queue')"
  by pat_completeness auto

termination
proof (relation "inv_image (less_than <*lex*> less_than)
         (\<lambda>(es, seen, queue). (card (snd ` set es - set seen), length queue))")
  show "wf (inv_image (less_than <*lex*> less_than)
         (\<lambda>(es, seen, queue). (card (snd ` set es - set seen), length queue)))"
    by (intro wf_inv_image wf_lex_prod wf_less_than)
next
  fix es :: "(string \<times> string) list" and seen cur rest seen' queue'
  assume step: "(seen', queue') = fold visit (children es cur) (seen, rest)"
  define T where "T = snd ` set es"
  have finT: "finite T" by (simp add: T_def)
  have key: "set cs \<subseteq> T \<Longrightarrow> fold visit cs (s, q) = (s', q') \<Longrightarrow>
        set s \<subseteq> set s' \<and> ((s' = s \<and> q' = q) \<or> card (T - set s') < card (T - set s))"
    for cs s q s' q'
  proof (induction cs arbitrary: s q)
    case Nil
    then show ?case by simp
  next
    case (Cons c cs)
    show ?case
    proof (cases "c \<in> set s")
      case True
      with Cons.prems have "fold visit cs (s, q) = (s', q')" by simp
      with Cons.IH [of s q] Cons.prems(1) show ?thesis by simp
    next
      case False
      with Cons.prems have f: "fold visit cs (c # s, q @ [c]) = (s', q')" by simp
      from Cons.prems(1) have cT: "c \<in> T" and csT: "set cs \<subseteq> T" by simp_all
      from Cons.IH [OF csT f]
      have sub: "set (c # s) \<subseteq> set s'"
        and alt: "(s' = c # s \<and> q' = q @ [c]) \<or> card (T - set s') < card (T - set (c # s))"
        by simp_all
      have less: "card (T - set (c # s)) < card (T - set s)"
      proof (rule psubset_card_mono)
        show "finite (T - set s)" using finT by simp
        show "T - set (c # s) \<subset> T - set s" using cT False by auto
      qed
      from alt less have "card (T - set s') < card (T - set s)" by auto
      with sub show ?thesis by auto
    qed
  qed
  have "set (children es cur) \<subseteq> T"
    by (auto simp: children_def T_def)
  from key [OF this, of seen rest seen' queue'] step
  have "(seen' = seen \<and> queue' = rest) \<or> card (T - set seen') < card (T - set seen)"
    by simp
  then show "((es, seen', queue'), es, seen, cur # rest)
        \<in> inv_image (less_than <*lex*> less_than)
            (\<lambda>(es, seen, queue). (card (snd ` set es - set seen), length queue))"
    by (auto simp: T_def)
qed

text \<open>
  \<^verbatim>\<open>_skip_failed_descendants\<close>.  \<^verbatim>\<open>failed_ids\<close> is a set in the source; here it is the
  list of the failed ids in node order without repetitions, which fixes one of the
  iteration orders a Python set may have (the resulting \<^verbatim>\<open>seen\<close> set does not depend on it).
\<close>

definition skip_failed_descendants :: "run_state \<Rightarrow> run_state" where
  "skip_failed_descendants st =
     (let ns = nodes (dag st);
          failed_ids = remdups (map node_id (filter (\<lambda>n. n_status n = Failed) ns))
      in if failed_ids = [] then st
         else
           (let seen = bfs (edges (dag st)) failed_ids failed_ids in
            st\<lparr>dag := (dag st)\<lparr>nodes :=
                 map (\<lambda>n. if node_id n \<in> set seen \<and> n_status n = Pending
                           then n\<lparr>n_status := Skipped,
                                  last_error := Some
                                    \<lparr>err_code = EXECUTION_ERROR,
                                     err_message =
                                       ''Skipped due to upstream failure during replanning'',
                                     err_details = [(''upstream'', JStrs (sort failed_ids))]\<rparr>\<rparr>
                           else n) ns\<rparr>\<rparr>))"

text \<open>\<^verbatim>\<open>ReflectionService.reflect\<close>.\<close>

definition reflect :: "run_state \<times> world \<Rightarrow> run_state \<times> world" where
  "reflect sw =
     (let (st, w) = sw in
      if \<not> reflection_needed st then (st, w)
      else
        (let reason = (case reflection_reason st of
                         None \<Rightarrow> ''Reflection requested''
                       | Some r \<Rightarrow> if r = [] then ''Reflection requested'' else r);
             fm = (case failure_mode st of None \<Rightarrow> FmOther | Some m \<Rightarrow> m);
             action = decide_action fm;
             (st1, w1) =
               (if action = REPLANNED then
                  (skip_failed_descendants st,
                   emit_event w \<lparr>ev_run_id = run_id st, ev_step_id = None,
                                 ev_type = ''replanned'', ev_payload = ReplannedP reason fm\<rparr>)
                else if action = ADJUSTED_PARAMETERS then
                  (st\<lparr>reflection_model_preference := Some ''expensive''\<rparr>, w)
                else
                  (if finish_status st \<notin> {Some RunFailed, Some RunCanceled}
                   then st\<lparr>should_finish := True, finish_status := Some RunFailed,
                           finish_reason := Some ''reflection_terminated''\<rparr>
                   else st\<lparr>should_finish := True\<rparr>, w));
             d = \<lparr>dg_reason = reason, dg_failure_mode = fm, dg_action = action\<rparr>;
             w2 = append_run_diagnostic w1 (run_id st1) d;
             w3 = emit_event w2 \<lparr>ev_run_id = run_id st1, ev_step_id = None,
                                 ev_type = ''reflection'', ev_payload = ReflectionP d\<rparr>
         in (st1\<lparr>reflection_needed := False, reflection_reason := None,
                 failure_mode := None\<rparr>, w3)))"

section \<open>Planner\<close>

text \<open>
  \<^verbatim>\<open>PlannerService.plan\<close>.  An exception (no template, or one raised by the provider)
  leaves the rows written so far in place, so the world is returned in both cases.
\<close>

definition plan :: "settings \<Rightarrow> provider \<Rightarrow> world \<Rightarrow> run_row \<Rightarrow> (py_error + dag) \<times> world" where
  "plan cfg llm w run =
     (if nodes (r_dag run) \<noteq> [] then (Inr (r_dag run), w)
      else
        (let w1 = emit_event w
                    \<lparr>ev_run_id = r_id run, ev_step_id = None, ev_type = ''planning_started'',
                     ev_payload = PlanningStartedP (r_task run) (r_template_id run)\<rparr>;
             by_id = (case r_template_id run of
                        None \<Rightarrow> None
                      | Some tid \<Rightarrow> if tid = [] then None else get_workflow_template w1 tid);
             chosen = (case by_id of
                         Some t \<Rightarrow> Some t
                       | None \<Rightarrow> (case list_workflow_templates w1 of
                                    [] \<Rightarrow> None | t # _ \<Rightarrow> Some t))
         in case chosen of
              None \<Rightarrow> (Inl (RuntimeError ''No workflow template available''), w1)
            | Some tpl \<Rightarrow>
                (let planner_model = for_workload cfg PLANNER in
                 case llm \<lparr>rq_prompt = PlannerPrompt (r_task run) (tpl_name tpl),
                           rq_model = planner_model, rq_timeout_s = 20,
                           rq_phase = ''planner''\<rparr> of
                   LLMTimeout msg \<Rightarrow> (Inl (ProviderError msg), w1)
                 | LLMRaise msg \<Rightarrow> (Inl (ProviderError msg), w1)
                 | LLMOk resp \<Rightarrow>
                     (let cost = estimate cfg planner_model (lr_prompt_tokens resp)
                                   (lr_completion_tokens resp);
                          w2 = create_cost_entry w1
                                 \<lparr>cl_run_id = r_id run, cl_step_id = None,
                                  cl_app = cost_ledger_app cfg,
                                  cl_provider = lr_provider resp, cl_model = lr_model resp,
                                  cl_prompt_tokens = ce_prompt_tokens cost,
                                  cl_completion_tokens = ce_completion_tokens cost,
                                  cl_total_tokens = ce_total_tokens cost,
                                  cl_usd = ce_usd cost, cl_phase = ''planning''\<rparr>;
                          w3 = increment_run_totals w2 (r_id run) (ce_prompt_tokens cost)
                                 (ce_completion_tokens cost) (ce_total_tokens cost)
                                 (ce_usd cost);
                          g = \<lparr>nodes = map (\<lambda>n. n\<lparr>n_status := Pending, last_output := None,
                                                      last_error := None\<rparr>) (tpl_nodes tpl),
                               edges = tpl_edges tpl, contracts = tpl_contracts tpl,
                               planner_notes = Some (lr_content resp)\<rparr>;
                          w4 = update_run w3 (r_id run) [SetDag g];
                          w5 = emit_event w4
                                 \<lparr>ev_run_id = r_id run, ev_step_id = None,
                                  ev_type = ''planning_finished'',
                                  ev_payload = PlanningFinishedP (length (nodes g))
                                                 (length (edges g)) (lr_model resp)\<rparr>
                      in (Inr g, w5)))))"

section \<open>Orchestrator\<close>

datatype graph_node = PlanN | ExecuteStepN | MonitorN | ReflectN | FinishN | END

definition route_after_monitor :: "run_state \<Rightarrow> graph_node" where
  "route_after_monitor st =
     (if should_finish st then FinishN
      else if reflection_needed st then ReflectN
      else ExecuteStepN)"

definition plan_node :: "settings \<Rightarrow> provider \<Rightarrow> run_state \<times> world \<Rightarrow> (py_error + run_state) \<times> world" where
  "plan_node cfg llm sw =
     (let (st, w) = sw in
      case get_run w (run_id st) of
        None \<Rightarrow>
          (Inr (st\<lparr>should_finish := True, finish_status := Some RunFailed,
                   finish_reason := Some ''run_missing''\<rparr>), w)
      | Some run \<Rightarrow>
          (case plan cfg llm w run of
             (Inl e, w') \<Rightarrow> (Inl e, w')
           | (Inr g, w') \<Rightarrow> (Inr (st\<lparr>dag := g\<rparr>), w')))"

definition execute_step_node ::
  "settings \<Rightarrow> provider \<Rightarrow> string \<Rightarrow> timestamp \<Rightarrow> timestamp \<Rightarrow> run_state \<times> world
     \<Rightarrow> run_state \<times> world" where
  "execute_step_node cfg llm fresh_uuid t_start t_end sw =
     execute_next cfg llm fresh_uuid t_start t_end (request_id (fst sw)) sw"

definition monitor_node :: "run_state \<times> world \<Rightarrow> rat \<Rightarrow> (py_error + run_state) \<times> world" where
  "monitor_node sw mono_now =
     (let (st, w) = sw in
      case evaluate st w mono_now of
        Inl e \<Rightarrow> (Inl e, w)
      | Inr updated \<Rightarrow> (Inr updated, update_run w (run_id updated) [SetDag (dag updated)]))"

definition reflect_node :: "run_state \<times> world \<Rightarrow> run_state \<times> world" where
  "reflect_node sw =
     (let (updated, w) = reflect sw in
      (updated, update_run w (run_id updated) [SetDag (dag updated)]))"

definition canceled_error :: structured_error where
  "canceled_error =
     \<lparr>err_code = CANCELED, err_message = ''Canceled by human override'', err_details = []\<rparr>"

text \<open>The body of the second loop of \<^verbatim>\<open>_mark_open_steps_canceled\<close>, for one step row.\<close>

definition cancel_step :: "timestamp \<Rightarrow> step_row \<Rightarrow> world \<Rightarrow> world" where
  "cancel_step now step w =
     (if s_status step \<notin> {Pending, Running} then w
      else upsert_step w
             \<lparr>s_id = s_id step, s_run_id = s_run_id step, s_node_id = s_node_id step,
              s_status = Canceled, s_attempts = s_attempts step,
              s_max_retries = s_max_retries step, s_started_at = s_started_at step,
              s_ended_at = Some now, s_input = s_input step, s_output = s_output step,
              s_error = Some canceled_error, s_cost = s_cost step, s_logs = s_logs step\<rparr>)"

text \<open>
  \<^verbatim>\<open>_mark_open_steps_canceled\<close>.  The rows are those \<^verbatim>\<open>list_steps\<close> returned before the
  loop; \<open>now\<close> stands for the clock readings taken inside it.
\<close>

definition mark_open_steps_canceled :: "run_state \<times> world \<Rightarrow> timestamp \<Rightarrow> run_state \<times> world" where
  "mark_open_steps_canceled sw now =
     (let (st, w) = sw;
          st1 = st\<lparr>dag := (dag st)\<lparr>nodes :=
                  map (\<lambda>n. if n_status n \<in> {Pending, Running}
                            then n\<lparr>n_status := Canceled, last_error := Some canceled_error\<rparr>
                            else n) (nodes (dag st))\<rparr>\<rparr>
      in (st1, fold (cancel_step now) (list_steps w (run_id st1)) w))"

definition finish_node :: "run_state \<times> world \<Rightarrow> timestamp \<Rightarrow> run_state \<times> world" where
  "finish_node sw now =
     (let status = (case finish_status (fst sw) of None \<Rightarrow> RunFailed | Some s \<Rightarrow> s);
          reason = (case finish_reason (fst sw) of
                      None \<Rightarrow> ''unknown''
                    | Some r \<Rightarrow> if r = [] then ''unknown'' else r);
          (st, w) = (if status = RunCanceled then mark_open_steps_canceled sw now else sw);
          w1 = update_run w (run_id st)
                 [SetStatus status, SetEndedAt (Some now), SetCancelRequested False,
                  SetDag (dag st)];
          w2 = emit_event w1
                 \<lparr>ev_run_id = run_id st, ev_step_id = None, ev_type = ''run_finished'',
                  ev_payload = RunFinishedP status reason\<rparr>
      in (st, w2))"

definition request_cancel :: "world \<Rightarrow> string \<Rightarrow> world" where
  "request_cancel w rid = request_cancel_run w rid"

definition reset_node_for_step_retry :: "world \<Rightarrow> dag \<Rightarrow> string \<Rightarrow> dag" where
  "reset_node_for_step_retry w g sid =
     (case get_step w sid of
        None \<Rightarrow> g
      | Some step \<Rightarrow>
          g\<lparr>nodes := map (\<lambda>n. if node_id n = s_node_id step
                                then n\<lparr>n_status := Pending, last_error := None,
                                       last_output := None\<rparr>
                                else n) (nodes g)\<rparr>)"

definition reset_failed_nodes :: "dag \<Rightarrow> dag" where
  "reset_failed_nodes g =
     g\<lparr>nodes := map (\<lambda>n. if n_status n = Failed
                           then n\<lparr>n_status := Pending, last_error := None, last_output := None\<rparr>
                           else n) (nodes g)\<rparr>"

text \<open>
  \<^verbatim>\<open>retry_run\<close> up to its last statement, \<^verbatim>\<open>start_run\<close>, which schedules the worker
  (\<open>run_loop\<close> below).  \<^verbatim>\<open>if step_id:\<close> is false for \<^verbatim>\<open>None\<close> and for the empty string.
\<close>

definition retry_run :: "world \<Rightarrow> string \<Rightarrow> string option \<Rightarrow> string \<Rightarrow> bool \<times> world" where
  "retry_run w rid step_id req_id =
     (case get_run w rid of
        None \<Rightarrow> (False, w)
      | Some run \<Rightarrow>
          (let g = r_dag run;
               named = (case step_id of None \<Rightarrow> None
                        | Some sid \<Rightarrow> if sid = [] then None else Some sid);
               (ok, w1, g1) =
                 (case named of
                    Some sid \<Rightarrow>
                      (let (reset_ok, w') = reset_step w rid sid in
                       if \<not> reset_ok then (False, w', g)
                       else (True, w', reset_node_for_step_retry w' g sid))
                  | None \<Rightarrow>
                      (let (_, w') = reset_failed_steps w rid in
                       (True, w', reset_failed_nodes g)))
           in if \<not> ok then (False, w1)
              else
                (let w2 = update_run w1 rid
                            [SetStatus RunRunning, SetEndedAt None, SetCancelRequested False,
                             SetDag g1];
                     w3 = emit_event w2
                            \<lparr>ev_run_id = rid, ev_step_id = None,
                             ev_type = ''run_retry_requested'',
                             ev_payload = RunRetryRequestedP step_id req_id\<rparr>
                 in (True, w3))))"

text \<open>
  What one visit of a graph node reads from outside: the provider, the uuid and the
  wall-clock readings of the tick, and the reading of the monotonic clock.
\<close>

record tick =
  tk_llm :: provider
  tk_uuid :: string
  tk_start :: timestamp
  tk_end :: timestamp
  tk_mono :: rat

text \<open>
  \<^verbatim>\<open>FallbackCompiledGraph.ainvoke\<close>, with fuel: \<open>None\<close> means the loop has not reached
  \<^verbatim>\<open>END\<close> within \<open>fuel\<close> node visits.  \<open>env k\<close> is what the \<open>k\<close>-th visit reads.  \<open>Inl\<close> is
  an exception that leaves the loop.
\<close>

fun ainvoke ::
  "settings \<Rightarrow> (nat \<Rightarrow> tick) \<Rightarrow> nat \<Rightarrow> nat \<Rightarrow> graph_node \<Rightarrow> run_state \<times> world
     \<Rightarrow> ((py_error + run_state) \<times> world) option" where
  "ainvoke cfg env fuel k END sw = Some (Inr (fst sw), snd sw)"
| "ainvoke cfg env 0 k cur sw = None"
| "ainvoke cfg env (Suc fuel) k PlanN sw =
     (case plan_node cfg (tk_llm (env k)) sw of
        (Inl e, w') \<Rightarrow> Some (Inl e, w')
      | (Inr st', w') \<Rightarrow> ainvoke cfg env fuel (Suc k) MonitorN (st', w'))"
| "ainvoke cfg env (Suc fuel) k ExecuteStepN sw =
     ainvoke cfg env fuel (Suc k) MonitorN
       (execute_step_node cfg (tk_llm (env k)) (tk_uuid (env k)) (tk_start (env k))
          (tk_end (env k)) sw)"
| "ainvoke cfg env (Suc fuel) k ReflectN sw =
     ainvoke cfg env fuel (Suc k) MonitorN (reflect_node sw)"
| "ainvoke cfg env (Suc fuel) k MonitorN sw =
     (case monitor_node sw (tk_mono (env k)) of
        (Inl e, w') \<Rightarrow> Some (Inl e, w')
      | (Inr st', w') \<Rightarrow> ainvoke cfg env fuel (Suc k) (route_after_monitor st') (st', w'))"
| "ainvoke cfg env (Suc fuel) k FinishN sw =
     ainvoke cfg env fuel (Suc k) END (finish_node sw (tk_end (env k)))"

definition error_text :: "py_error \<Rightarrow> string" where
  "error_text e =
     (case e of RuntimeError m \<Rightarrow> m | ProviderError m \<Rightarrow> m
      | ZeroDivisionError \<Rightarrow> ''integer modulo by zero'')"

text \<open>
  \<^verbatim>\<open>_run_loop\<close>, the worker of one run.  \<open>now\<close> is the wall-clock reading at its start,
  \<open>mono_start\<close> the monotonic one, \<open>t_exc\<close> the wall-clock reading in the exception handler.
\<close>

definition run_loop ::
  "settings \<Rightarrow> (nat \<Rightarrow> tick) \<Rightarrow> nat \<Rightarrow> timestamp \<Rightarrow> rat \<Rightarrow> timestamp \<Rightarrow> string \<Rightarrow> string
     \<Rightarrow> world \<Rightarrow> world option" where
  "run_loop cfg env fuel now mono_start t_exc rid req_id w =
     (case get_run w rid of
        None \<Rightarrow> Some w
      | Some run \<Rightarrow>
          if r_status run \<in> {RunCompleted, RunFailed, RunCanceled} then Some w
          else
            (let started_at = (case r_started_at run of None \<Rightarrow> now | Some t \<Rightarrow> t);
                 w1 = update_run w rid [SetStatus RunRunning, SetStartedAt (Some started_at)];
                 w2 = emit_event w1
                        \<lparr>ev_run_id = rid, ev_step_id = None, ev_type = ''run_started'',
                         ev_payload = RunStartedP req_id started_at\<rparr>;
                 sc = r_constraints run;
                 st = \<lparr>run_id = rid, task = r_task run, template_id = r_template_id run,
                       constraints =
                         \<lparr>budget_usd = (case sc_budget_usd sc of
                                          None \<Rightarrow> default_run_budget_usd cfg | Some v \<Rightarrow> v),
                          c_timeout_s = (case sc_timeout_s sc of
                                           None \<Rightarrow> default_run_timeout_s cfg | Some v \<Rightarrow> v),
                          max_steps = (case sc_max_steps sc of
                                         None \<Rightarrow> default_run_max_steps cfg | Some v \<Rightarrow> v),
                          reflection_interval_steps =
                            (case sc_reflection_interval_steps sc of
                               None \<Rightarrow> default_reflection_interval_steps cfg
                             | Some v \<Rightarrow> v)\<rparr>,
                       dag = r_dag run, step_counter = 0, progress_made = False,
                       reflection_needed = False, reflection_reason = None,
                       reflection_model_preference = None, failure_mode = None,
                       should_finish = False, finish_status = None, finish_reason = None,
                       run_started_monotonic = mono_start, request_id = req_id\<rparr>
             in case ainvoke cfg env fuel 0 PlanN (st, w2) of
                  None \<Rightarrow> None
                | Some (Inr _, w3) \<Rightarrow> Some w3
                | Some (Inl e, w3) \<Rightarrow>
                    Some (emit_event
                            (update_run w3 rid
                               [SetStatus RunFailed, SetEndedAt (Some t_exc),
                                SetDiagnostics
                                  [\<lparr>dg_reason = ''Unhandled orchestrator error: '' @ error_text e,
                                    dg_failure_mode = FmOther, dg_action = TERMINATED\<rparr>]])
                            \<lparr>ev_run_id = rid, ev_step_id = None, ev_type = ''run_finished'',
                             ev_payload = RunFinishedP RunFailed ''orchestrator_exception''\<rparr>)))"

section \<open>Vocabulary of the specification\<close>

text \<open>
  The number \<^verbatim>\<open>execute_next\<close> gives the next attempt on a node: one more than the
  attempts of its step row, or 1 when the node has no step row yet.
\<close>

definition attempt_no :: "world \<Rightarrow> string \<Rightarrow> string \<Rightarrow> int" where
  "attempt_no w rid nid = (case get_step_by_node w rid nid of None \<Rightarrow> 1 | Some r \<Rightarrow> s_attempts r + 1)"


text \<open>
  The dependency a node names by \<open>dep\<close>: the node of the list that carries this id, the
  last one if several do (ids are unique in a well-formed DAG).
\<close>

definition dep_node :: "node list \<Rightarrow> string \<Rightarrow> node option" where
  "dep_node ns dep =
     (case filter (\<lambda>d. node_id d = dep) ns of [] \<Rightarrow> None | d # ds \<Rightarrow> Some (last (d # ds)))"

text \<open>A runnable node is a pending node whose dependencies are all completed.\<close>

definition runnable :: "node list \<Rightarrow> node \<Rightarrow> bool" where
  "runnable ns n \<longleftrightarrow>
     n_status n = Pending
     \<and> (\<forall>dep \<in> set (depends_on n). \<exists>d. dep_node ns dep = Some d \<and> n_status d = Completed)"


text \<open>
  The monitor's decision table as the specification words it (section 4.6): nine guards
  in their order of precedence, over the state, the run row just read and the elapsed
  time.
\<close>

definition spec_guards :: "run_state \<Rightarrow> run_row option \<Rightarrow> rat \<Rightarrow> bool list" where
  "spec_guards st run elapsed =
     (let ns = nodes (dag st); cons = constraints st in
      [run = None,
       (case run of None \<Rightarrow> False | Some r \<Rightarrow> cancel_requested r),
       of_int (c_timeout_s cons) \<le> elapsed,
       (case run of None \<Rightarrow> False | Some r \<Rightarrow> budget_usd cons \<le> total_usd r),
       (\<forall>n \<in> set ns. n_status n \<in> {Completed, Skipped}) \<and> ns \<noteq> [],
       \<not> (\<exists>n \<in> set ns. runnable ns n) \<and> \<not> (\<exists>n \<in> set ns. n_status n = Running)
         \<and> (\<exists>n \<in> set ns. n_status n = Pending),
       \<not> (\<exists>n \<in> set ns. n_status n \<in> {Pending, Running})
         \<and> (\<exists>n \<in> set ns. n_status n = Failed),
       max_steps cons \<le> step_counter st,
       0 < step_counter st \<and> step_counter st mod reflection_interval_steps cons = 0
         \<and> progress_made st])"

text \<open>First match wins: the number (from 1) of the first guard that holds, 0 if none does.\<close>

fun first_match :: "bool list \<Rightarrow> nat" where
  "first_match [] = 0"
| "first_match (b # bs) =
     (if b then 1 else (case first_match bs of 0 \<Rightarrow> 0 | Suc k \<Rightarrow> Suc (Suc k)))"

record decision =
  dc_should_finish :: bool
  dc_finish_status :: "run_status option"
  dc_finish_reason :: "string option"
  dc_reflection_needed :: bool
  dc_progress_made :: bool

definition decision_of :: "run_state \<Rightarrow> decision" where
  "decision_of st =
     \<lparr>dc_should_finish = should_finish st, dc_finish_status = finish_status st,
      dc_finish_reason = finish_reason st, dc_reflection_needed = reflection_needed st,
      dc_progress_made = progress_made st\<rparr>"

definition finish_with :: "run_status \<Rightarrow> string \<Rightarrow> bool \<Rightarrow> run_state \<Rightarrow> decision" where
  "finish_with status reason rf st =
     \<lparr>dc_should_finish = True, dc_finish_status = Some status, dc_finish_reason = Some reason,
      dc_reflection_needed = (rf \<or> reflection_needed st),
      dc_progress_made = progress_made st\<rparr>"

text \<open>The decision the specification attaches to rule \<open>k\<close>; no rule leaves the state's own.\<close>

definition spec_decision :: "nat \<Rightarrow> run_state \<Rightarrow> decision" where
  "spec_decision k st =
     (if k = 1 then finish_with RunFailed ''run_missing'' False st
      else if k = 2 then finish_with RunCanceled ''cancel_requested'' False st
      else if k = 3 then finish_with RunFailed ''timeout'' True st
      else if k = 4 then finish_with RunFailed ''budget_exceeded'' True st
      else if k = 5 then finish_with RunCompleted ''all_steps_completed'' False st
      else if k = 6 then finish_with RunFailed ''dependency_deadlock'' True st
      else if k = 7 then finish_with RunFailed ''steps_failed'' True st
      else if k = 8 then finish_with RunFailed ''max_steps_exceeded'' True st
      else if k = 9 then (decision_of st)\<lparr>dc_reflection_needed := True, dc_progress_made := False\<rparr>
      else decision_of st)"

text \<open>
  The failure mode the specification attaches to rule \<open>k\<close>: \<open>None\<close> where it names none
  (rule 7), otherwise the value the state must carry afterwards.
\<close>

definition spec_failure_mode :: "nat \<Rightarrow> run_state \<Rightarrow> failure_mode option option" where
  "spec_failure_mode k st =
     (if k = 3 then Some (Some FmTimeout)
      else if k = 4 then Some (Some FmBudgetRisk)
      else if k = 6 then Some (Some (case failure_mode st of None \<Rightarrow> FmOther | Some m \<Rightarrow> m))
      else if k = 7 then None
      else if k = 8 then Some (Some FmOther)
      else if k = 9
      then Some (Some (case failure_mode st of None \<Rightarrow> FmLowConfidence | Some m \<Rightarrow> m))
      else Some (failure_mode st))"

text \<open>
  The three token counters of a run row, as one reading of the row.
\<close>

definition run_totals :: "world \<Rightarrow> string \<Rightarrow> (int \<times> int \<times> int) option" where
  "run_totals w rid =
     map_option (\<lambda>r. (total_prompt_tokens r, total_completion_tokens r, total_tokens r))
       (runs w rid)"







section \<open>Concrete inputs\<close>

text \<open>The inputs on which the theorems below are instantiated.\<close>

definition ev0 :: event where
  "ev0 = \<lparr>ev_run_id = ''r1'', ev_step_id = None, ev_type = ''run_created'',
          ev_payload = PlanningStartedP ''t'' None\<rparr>"

definition ev1 :: event where
  "ev1 = \<lparr>ev_run_id = ''r1'', ev_step_id = None, ev_type = ''run_finished'',
          ev_payload = RunFinishedP RunFailed ''timeout''\<rparr>"

text \<open>A broker with one subscriber of run \<open>r1\<close> whose buffer is full.\<close>

definition w_full :: world where
  "w_full = \<lparr>runs = Map.empty, steps = [], events = [], cost_ledger = [], templates = [],
         subscribers = (\<lambda>_. [])(''r1'' := [\<lparr>q_maxsize = 256, q_items = replicate 256 ev0\<rparr>])\<rparr>"

text \<open>The settings of \<^verbatim>\<open>core/settings.py\<close> with their default values.\<close>

definition cfg0 :: settings where
  "cfg0 = \<lparr>llm_cheap_model = ''mock-cheap'', llm_default_model = ''mock-default'',
           llm_expensive_model = ''mock-expensive'',
           llm_cheap_prompt_per_1k = 1 / 10000, llm_cheap_completion_per_1k = 2 / 10000,
           llm_default_prompt_per_1k = 5 / 10000, llm_default_completion_per_1k = 1 / 1000,
           llm_expensive_prompt_per_1k = 2 / 1000, llm_expensive_completion_per_1k = 4 / 1000,
           default_run_budget_usd = 2, default_run_timeout_s = 300, default_run_max_steps = 30,
           default_reflection_interval_steps = 2, cost_ledger_app = ''taskflow-api''\<rparr>"

text \<open>
  The run of \<^verbatim>\<open>tests/unit/test_retry_policy.py\<close>: one node whose contract allows no
  tool and one retry.
\<close>

definition n_exec :: node where
  "n_exec = \<lparr>node_id = ''execute_task'', node_name = ''Execute'', description = ''run'',
             depends_on = [], n_status = Pending, last_output = None, last_error = None\<rparr>"

definition c_notools :: contract where
  "c_notools = \<lparr>allowed_tools = Some [], timeout_s = Some 1, max_retries = Some 1,
                model_preference = Some ''default''\<rparr>"

definition dag1 :: dag where
  "dag1 = \<lparr>nodes = [n_exec], edges = [], contracts = [(''execute_task'', c_notools)],
           planner_notes = None\<rparr>"

definition cons1 :: constraints where
  "cons1 = \<lparr>budget_usd = 10, c_timeout_s = 60, max_steps = 20, reflection_interval_steps = 5\<rparr>"

definition st1 :: run_state where
  "st1 = \<lparr>run_id = ''run-1'', task = ''retry test'', template_id = None, constraints = cons1,
          dag = dag1, step_counter = 0, progress_made = False, reflection_needed = False,
          reflection_reason = None, reflection_model_preference = None, failure_mode = None,
          should_finish = False, finish_status = None, finish_reason = None,
          run_started_monotonic = 0, request_id = ''req-1''\<rparr>"

definition run1 :: run_row where
  "run1 = \<lparr>r_id = ''run-1'', r_task = ''retry test'', r_template_id = None,
           r_status = RunRunning,
           r_constraints = \<lparr>sc_budget_usd = Some 10, sc_timeout_s = Some 60,
                            sc_max_steps = Some 20, sc_reflection_interval_steps = Some 5\<rparr>,
           r_dag = dag1, r_diagnostics = [], r_created_at = 0, r_started_at = Some 1,
           r_ended_at = None, total_prompt_tokens = 0, total_completion_tokens = 0,
           total_tokens = 0, total_usd = 0, cancel_requested = False\<rparr>"

definition w1 :: world where
  "w1 = \<lparr>runs = [''run-1'' \<mapsto> run1], steps = [], events = [], cost_ledger = [],
         templates = [], subscribers = (\<lambda>_. [])\<rparr>"

definition err_tool :: structured_error where
  "err_tool = \<lparr>err_code = TOOL_NOT_ALLOWED,
               err_message = ''Contract does not allow llm.generate'',
               err_details = [(''allowed_tools'', JStrs [])]\<rparr>"

text \<open>A provider that answers every request.\<close>

definition llm_ok :: provider where
  "llm_ok req = LLMOk \<lparr>lr_provider = ''mock'', lr_model = rq_model req, lr_content = ''done'',
                        lr_prompt_tokens = 7, lr_completion_tokens = 3\<rparr>"

text \<open>A node that waits for a dependency no node of the DAG carries.\<close>

definition n_blocked :: node where
  "n_blocked = \<lparr>node_id = ''b'', node_name = ''Blocked'', description = ''waits'',
                depends_on = [''ghost''], n_status = Pending, last_output = None,
                last_error = None\<rparr>"

definition st_blocked :: run_state where
  "st_blocked = st1\<lparr>dag := \<lparr>nodes = [n_blocked], edges = [], contracts = [],
                             planner_notes = None\<rparr>\<rparr>"

text \<open>The world \<open>w1\<close> after \<^verbatim>\<open>request_cancel\<close> for the run.\<close>

definition w_cancel :: world where
  "w_cancel = request_cancel w1 ''run-1''"

text \<open>What every node visit of the example runs reads from outside.\<close>

definition tick0 :: tick where
  "tick0 = \<lparr>tk_llm = llm_ok, tk_uuid = ''u1'', tk_start = 5, tk_end = 6, tk_mono = 1\<rparr>"

text \<open>
  A running run whose only node waits for the missing dependency, with a cancel request
  pending.
\<close>

definition w_blocked_cancel :: world where
  "w_blocked_cancel =
     request_cancel (w1\<lparr>runs := [''run-1'' \<mapsto> run1\<lparr>r_dag := dag st_blocked\<rparr>]\<rparr>) ''run-1''"

definition env0 :: "nat \<Rightarrow> tick" where
  "env0 k = tick0"

text \<open>
  The clock of a run that exceeds its timeout of 60 seconds after its first executor
  tick: the monotonic clock reads 1 during the first three node visits and 100 afterwards.
\<close>

definition env_late :: "nat \<Rightarrow> tick" where
  "env_late k = tick0\<lparr>tk_mono := (if k < 3 then 1 else 100)\<rparr>"

text \<open>
  The state and the world after the first, failing attempt on the node of \<open>st1\<close> (the
  tick is \<open>execute_next cfg0 llm_ok ''u1'' 5 6 ''req-1'' (st1, w1)\<close>, see \<open>first_tick_view\<close>).
\<close>

definition n_retrying :: node where
  "n_retrying = n_exec\<lparr>last_error := Some err_tool\<rparr>"

definition st_retrying :: run_state where
  "st_retrying = st1\<lparr>dag := dag1\<lparr>nodes := [n_retrying]\<rparr>, step_counter := 1,
                       progress_made := True\<rparr>"

definition w_retrying :: world where
  "w_retrying =
     w1\<lparr>runs := [''run-1'' \<mapsto> run1\<lparr>r_dag := dag1\<lparr>nodes := [n_retrying]\<rparr>\<rparr>],
        steps := [\<lparr>s_id = ''u1'', s_run_id = ''run-1'', s_node_id = ''execute_task'',
                   s_status = Pending, s_attempts = 1, s_max_retries = 1,
                   s_started_at = Some 5, s_ended_at = Some 6,
                   s_input = \<lparr>in_task = ''retry test'', in_node = n_retrying,
                              in_request_id = None\<rparr>,
                   s_output = None, s_error = Some err_tool, s_cost = None, s_logs = []\<rparr>],
        events := [\<lparr>ev_run_id = ''run-1'', ev_step_id = Some ''u1'', ev_type = ''step_started'',
                    ev_payload = StepStartedP ''execute_task'' 1\<rparr>,
                   \<lparr>ev_run_id = ''run-1'', ev_step_id = Some ''u1'',
                    ev_type = ''step_retry_scheduled'',
                    ev_payload = StepRetryScheduledP ''execute_task'' 1 1 1 err_tool\<rparr>]\<rparr>"

text \<open>The same state once the monitor has seen a cancel request.\<close>

definition st_canceling :: run_state where
  "st_canceling = st_retrying\<lparr>should_finish := True, finish_status := Some RunCanceled,
                               finish_reason := Some ''cancel_requested''\<rparr>"

text \<open>
  What an observer reads of a run once its worker has returned: the status of the run
  row, the step rows of the run (node, status, attempts, max_retries) and the last event.
\<close>

definition run_summary ::
  "string \<Rightarrow> world \<Rightarrow> run_status option \<times> (string \<times> step_status \<times> int \<times> int) list \<times> event option" where
  "run_summary rid w =
     (map_option r_status (get_run w rid),
      map (\<lambda>r. (s_node_id r, s_status r, s_attempts r, s_max_retries r)) (list_steps w rid),
      (if events w = [] then None else Some (last (events w))))"

text \<open>
  The world once the worker has run the test's run to its end: both attempts on the node
  have failed, the step is failed with attempts 2 of max_retries 1, and the monitor has
  finished the run as failed (\<^verbatim>\<open>steps_failed\<close>).
\<close>

definition n_failed :: node where
  "n_failed = n_exec\<lparr>n_status := Failed, last_error := Some err_tool\<rparr>"

definition step_failed_row :: step_row where
  "step_failed_row =
     \<lparr>s_id = ''u1'', s_run_id = ''run-1'', s_node_id = ''execute_task'', s_status = Failed,
      s_attempts = 2, s_max_retries = 1, s_started_at = Some 5, s_ended_at = Some 6,
      s_input = \<lparr>in_task = ''retry test'', in_node = n_failed, in_request_id = None\<rparr>,
      s_output = None, s_error = Some err_tool, s_cost = None, s_logs = []\<rparr>"

definition w_failed :: world where
  "w_failed =
     \<lparr>runs = [''run-1'' \<mapsto> run1\<lparr>r_status := RunFailed, r_ended_at := Some 6,
                                   r_dag := dag1\<lparr>nodes := [n_failed]\<rparr>\<rparr>],
      steps = [step_failed_row],
      events =
        [\<lparr>ev_run_id = ''run-1'', ev_step_id = None, ev_type = ''run_started'',
          ev_payload = RunStartedP ''req-1'' 1\<rparr>,
         \<lparr>ev_run_id = ''run-1'', ev_step_id = Some ''u1'', ev_type = ''step_started'',
          ev_payload = StepStartedP ''execute_task'' 1\<rparr>,
         \<lparr>ev_run_id = ''run-1'', ev_step_id = Some ''u1'', ev_type = ''step_retry_scheduled'',
          ev_payload = StepRetryScheduledP ''execute_task'' 1 1 1 err_tool\<rparr>,
         \<lparr>ev_run_id = ''run-1'', ev_step_id = Some ''u1'', ev_type = ''step_started'',
          ev_payload = StepStartedP ''execute_task'' 2\<rparr>,
         \<lparr>ev_run_id = ''run-1'', ev_step_id = Some ''u1'', ev_type = ''step_failed'',
          ev_payload = StepFailedP ''execute_task'' err_tool\<rparr>,
         \<lparr>ev_run_id = ''run-1'', ev_step_id = None, ev_type = ''run_finished'',
          ev_payload = RunFinishedP RunFailed ''steps_failed''\<rparr>],
      cost_ledger = [], templates = [], subscribers = (\<lambda>_. [])\<rparr>"

text \<open>
  The world \<^verbatim>\<open>retry_run(run_id, None)\<close> makes of it (theorem \<open>retry_run_view\<close> below compares
  the tables): the run is running, its node and its step are pending, the step keeps its
  attempts.
\<close>

definition w_retried :: world where
  "w_retried =
     w_failed\<lparr>runs := [''run-1'' \<mapsto> run1\<lparr>r_status := RunRunning, r_ended_at := None,
                                           cancel_requested := False, r_dag := dag1\<rparr>],
              steps := [step_failed_row\<lparr>s_status := Pending, s_started_at := None,
                                        s_ended_at := None, s_output := None, s_error := None,
                                        s_cost := None\<rparr>],
              events := events w_failed
                        @ [\<lparr>ev_run_id = ''run-1'', ev_step_id = None,
                            ev_type = ''run_retry_requested'',
                            ev_payload = RunRetryRequestedP None ''req-2''\<rparr>]\<rparr>"

text \<open>
  A run with two independent nodes whose contracts both ask for the cheap model, in the
  state in which the monitor has requested a periodic reflection (low confidence).
\<close>

definition c_cheap :: contract where
  "c_cheap = \<lparr>allowed_tools = None, timeout_s = None, max_retries = None,
              model_preference = Some ''cheap''\<rparr>"

definition dag_two :: dag where
  "dag_two =
     \<lparr>nodes = [\<lparr>node_id = ''a'', node_name = ''A'', description = ''first'', depends_on = [],
                 n_status = Pending, last_output = None, last_error = None\<rparr>,
                \<lparr>node_id = ''b'', node_name = ''B'', description = ''second'', depends_on = [],
                 n_status = Pending, last_output = None, last_error = None\<rparr>],
      edges = [], contracts = [(''a'', c_cheap), (''b'', c_cheap)], planner_notes = None\<rparr>"

definition st_two :: run_state where
  "st_two = st1\<lparr>dag := dag_two\<rparr>"

definition w_two :: world where
  "w_two = w1\<lparr>runs := [''run-1'' \<mapsto> run1\<lparr>r_dag := dag_two\<rparr>]\<rparr>"


text \<open>The state reflection makes of \<open>st_lc\<close>.\<close>

definition st_hint :: run_state where
  "st_hint = st_two\<lparr>reflection_model_preference := Some ''expensive''\<rparr>"

text \<open>
  A provider that runs into the deadline and reports the model it was asked for, so that
  the model of the request shows in the step's error.
\<close>

definition llm_echo :: provider where
  "llm_echo req = LLMTimeout (rq_model req)"

definition err_timeout :: "string \<Rightarrow> structured_error" where
  "err_timeout model =
     \<lparr>err_code = TIMEOUT, err_message = ''Step execution timed out'',
      err_details = [(''timeout_s'', JInt 30), (''raw_error'', JStr model)]\<rparr>"

text \<open>
  The state and the world after the executor tick that follows the reflection, with this
  provider (the tick is \<open>execute_next cfg0 llm_echo ''u1'' 5 6 ''req-1'' (st_hint, w_two)\<close>,
  see \<open>hint_tick_view\<close>): the attempt on node \<open>a\<close> has timed out and a retry is scheduled.
\<close>

definition dag_hint_a :: dag where
  "dag_hint_a =
     dag_two\<lparr>nodes := [(nodes dag_two ! 0)\<lparr>last_error := Some (err_timeout ''mock-expensive'')\<rparr>,
                        nodes dag_two ! 1]\<rparr>"

definition st_hint_a :: run_state where
  "st_hint_a = st_hint\<lparr>dag := dag_hint_a, step_counter := 1, progress_made := True\<rparr>"

definition w_hint_a :: world where
  "w_hint_a =
     w_two\<lparr>runs := [''run-1'' \<mapsto> run1\<lparr>r_dag := dag_hint_a\<rparr>],
           steps := [\<lparr>s_id = ''u1'', s_run_id = ''run-1'', s_node_id = ''a'',
                      s_status = Pending, s_attempts = 1, s_max_retries = 2,
                      s_started_at = Some 5, s_ended_at = Some 6,
                      s_input = \<lparr>in_task = ''retry test'', in_node = nodes dag_hint_a ! 0,
                                 in_request_id = None\<rparr>,
                      s_output = None, s_error = Some (err_timeout ''mock-expensive''),
                      s_cost = None, s_logs = []\<rparr>],
           events := [\<lparr>ev_run_id = ''run-1'', ev_step_id = Some ''u1'',
                       ev_type = ''step_started'', ev_payload = StepStartedP ''a'' 1\<rparr>,
                      \<lparr>ev_run_id = ''run-1'', ev_step_id = Some ''u1'',
                       ev_type = ''step_retry_scheduled'',
                       ev_payload = StepRetryScheduledP ''a'' 1 2 1
                                      (err_timeout ''mock-expensive'')\<rparr>]\<rparr>"

section \<open>Projections of the repository operations\<close>

lemma update_run_proj [simp]:
  "steps (update_run w rid fs) = steps w"
  "events (update_run w rid fs) = events w"
  "cost_ledger (update_run w rid fs) = cost_ledger w"
  "templates (update_run w rid fs) = templates w"
  "subscribers (update_run w rid fs) = subscribers w"
  by (simp_all add: update_run_def split: option.splits)

lemma upsert_step_proj [simp]:
  "runs (upsert_step w p) = runs w"
  "events (upsert_step w p) = events w"
  "cost_ledger (upsert_step w p) = cost_ledger w"
  "templates (upsert_step w p) = templates w"
  "subscribers (upsert_step w p) = subscribers w"
  by (simp_all add: upsert_step_def)

lemma emit_event_proj [simp]:
  "runs (emit_event w e) = runs w"
  "steps (emit_event w e) = steps w"
  "events (emit_event w e) = events w @ [e]"
  "cost_ledger (emit_event w e) = cost_ledger w"
  "templates (emit_event w e) = templates w"
  by (simp_all add: emit_event_def publish_def create_event_def)

lemma create_cost_entry_proj [simp]:
  "runs (create_cost_entry w r) = runs w"
  "steps (create_cost_entry w r) = steps w"
  "events (create_cost_entry w r) = events w"
  "templates (create_cost_entry w r) = templates w"
  "subscribers (create_cost_entry w r) = subscribers w"
  by (simp_all add: create_cost_entry_def)

lemma increment_run_totals_proj [simp]:
  "steps (increment_run_totals w rid p c t u) = steps w"
  "events (increment_run_totals w rid p c t u) = events w"
  "cost_ledger (increment_run_totals w rid p c t u) = cost_ledger w"
  "templates (increment_run_totals w rid p c t u) = templates w"
  "subscribers (increment_run_totals w rid p c t u) = subscribers w"
  by (simp_all add: increment_run_totals_def split: option.splits)

lemma find_upsert_replace:
  assumes "\<exists>r \<in> set xs. P r" "P p"
  shows "find P (map (\<lambda>r. if P r then p else r) xs) = Some p"
  using assms by (induction xs) auto

lemma find_append_new:
  assumes "\<not> (\<exists>r \<in> set xs. P r)" "P p"
  shows "find P (xs @ [p]) = Some p"
  using assms by (induction xs) auto

lemma get_step_by_node_upsert:
  "get_step_by_node (upsert_step w p) (s_run_id p) (s_node_id p) = Some p"
proof -
  let ?P = "\<lambda>r. s_run_id r = s_run_id p \<and> s_node_id r = s_node_id p"
  have same: "same_key p = ?P"
    by (rule ext) (simp add: same_key_def)
  show ?thesis
  proof (cases "\<exists>r \<in> set (steps w). ?P r")
    case True
    then have "find ?P (map (\<lambda>r. if ?P r then p else r) (steps w)) = Some p"
      by (intro find_upsert_replace) simp_all
    with True show ?thesis
      by (simp add: get_step_by_node_def upsert_step_def same)
  next
    case False
    then have "find ?P (steps w @ [p]) = Some p"
      by (intro find_append_new) simp_all
    with False show ?thesis
      by (auto simp: get_step_by_node_def upsert_step_def same)
  qed
qed

lemma get_step_by_node_proj [simp]:
  "get_step_by_node (update_run w rid fs) a b = get_step_by_node w a b"
  "get_step_by_node (emit_event w e) a b = get_step_by_node w a b"
  by (simp_all add: get_step_by_node_def)

lemma set_node_proj [simp]:
  "run_id (set_node st i f) = run_id st"
  "task (set_node st i f) = task st"
  "step_counter (set_node st i f) = step_counter st"
  "progress_made (set_node st i f) = progress_made st"
  "reflection_needed (set_node st i f) = reflection_needed st"
  "reflection_reason (set_node st i f) = reflection_reason st"
  "reflection_model_preference (set_node st i f) = reflection_model_preference st"
  "failure_mode (set_node st i f) = failure_mode st"
  "should_finish (set_node st i f) = should_finish st"
  "finish_status (set_node st i f) = finish_status st"
  "finish_reason (set_node st i f) = finish_reason st"
  "constraints (set_node st i f) = constraints st"
  "request_id (set_node st i f) = request_id st"
  "nodes (dag (set_node st i f)) = (nodes (dag st))[i := f (nodes (dag st) ! i)]"
  "edges (dag (set_node st i f)) = edges (dag st)"
  "contracts (dag (set_node st i f)) = contracts (dag st)"
  by (simp_all add: set_node_def)

lemma py_pow2_nonneg: "0 \<le> e \<Longrightarrow> py_pow2 e = of_int (2 ^ nat e)"
  by (simp add: py_pow2_def)

lemma backoff_int:
  assumes "1 \<le> a"
  shows "min (py_pow2 (a - 1)) 8 = of_int (min (2 ^ nat (a - 1)) 8)"
proof -
  from assms have "py_pow2 (a - 1) = of_int (2 ^ nat (a - 1))"
    by (simp add: py_pow2_def)
  moreover have "(8::rat) = of_int 8"
    by simp
  ultimately show ?thesis
    by (metis of_int_min)
qed


section \<open>Event broker: bounded buffers that drop the oldest event\<close>

lemma publish_queue_items:
  assumes "q_maxsize q = 256" "length (q_items q) \<le> 256"
  shows "q_items (publish_queue e q)
           = (if length (q_items q) = 256 then tl (q_items q) else q_items q) @ [e]"
    and "q_maxsize (publish_queue e q) = 256"
  using assms
  by (cases "q_items q"; auto simp: publish_queue_def q_full_def get_nowait_def put_nowait_def Let_def)+

text \<open>
  Claim C8.  \<^verbatim>\<open>subscribe\<close> registers an empty buffer of capacity 256.  When every
  buffer of the event's run has capacity 256 and holds at most 256 events, \<^verbatim>\<open>publish\<close>
  appends the event to each of them, after removing exactly the oldest event of a buffer
  that was full; so the published event is the newest item of every such buffer, no
  buffer exceeds 256 items, and the buffers of other runs are untouched.
\<close>

theorem publish_drop_oldest:
  assumes cap: "\<forall>q \<in> set (subscribers w (ev_run_id e)). q_maxsize q = 256 \<and> length (q_items q) \<le> 256"
  shows "length (subscribers (publish w e) (ev_run_id e)) = length (subscribers w (ev_run_id e))
       \<and> (\<forall>i < length (subscribers w (ev_run_id e)).
            q_maxsize (subscribers (publish w e) (ev_run_id e) ! i) = 256
          \<and> q_items (subscribers (publish w e) (ev_run_id e) ! i)
              = (if length (q_items (subscribers w (ev_run_id e) ! i)) = 256
                 then tl (q_items (subscribers w (ev_run_id e) ! i))
                 else q_items (subscribers w (ev_run_id e) ! i)) @ [e]
          \<and> last (q_items (subscribers (publish w e) (ev_run_id e) ! i)) = e
          \<and> length (q_items (subscribers (publish w e) (ev_run_id e) ! i)) \<le> 256)
       \<and> (\<forall>rid. rid \<noteq> ev_run_id e \<longrightarrow> subscribers (publish w e) rid = subscribers w rid)
       \<and> (\<forall>rid. subscribers (subscribe w rid) rid
                   = subscribers w rid @ [\<lparr>q_maxsize = 256, q_items = []\<rparr>])"
proof -
  let ?qs = "subscribers w (ev_run_id e)"
  let ?qs' = "subscribers (publish w e) (ev_run_id e)"
  have sub: "?qs' = map (publish_queue e) ?qs"
    by (simp add: publish_def)
  have each: "q_maxsize (?qs' ! i) = 256
        \<and> q_items (?qs' ! i)
            = (if length (q_items (?qs ! i)) = 256 then tl (q_items (?qs ! i))
               else q_items (?qs ! i)) @ [e]
        \<and> last (q_items (?qs' ! i)) = e
        \<and> length (q_items (?qs' ! i)) \<le> 256" if "i < length ?qs" for i
  proof -
    from that cap have m: "q_maxsize (?qs ! i) = 256" and l: "length (q_items (?qs ! i)) \<le> 256"
      by simp_all
    have nth: "?qs' ! i = publish_queue e (?qs ! i)"
      using that by (simp add: sub)
    from publish_queue_items [OF m l, of e] l show ?thesis
      unfolding nth by auto
  qed
  have others: "\<forall>rid. rid \<noteq> ev_run_id e \<longrightarrow> subscribers (publish w e) rid = subscribers w rid"
    by (simp add: publish_def)
  have fresh: "\<forall>rid. subscribers (subscribe w rid) rid
                   = subscribers w rid @ [\<lparr>q_maxsize = 256, q_items = []\<rparr>]"
    by (simp add: subscribe_def)
  have len: "length ?qs' = length ?qs"
    by (simp add: sub)
  from each len others fresh show ?thesis
    by blast
qed

theorem publish_drop_oldest_witness:
  "subscribers w_full (ev_run_id ev1) = [\<lparr>q_maxsize = 256, q_items = replicate 256 ev0\<rparr>]
   \<and> q_items (subscribers (publish w_full ev1) ''r1'' ! 0) = replicate 255 ev0 @ [ev1]
   \<and> length (q_items (subscribers (publish w_full ev1) ''r1'' ! 0)) = 256"
proof -
  have h: "\<forall>q \<in> set (subscribers w_full (ev_run_id ev1)).
             q_maxsize q = 256 \<and> length (q_items q) \<le> 256"
    by (simp add: w_full_def ev1_def)
  from publish_drop_oldest [OF h]
  have "q_items (subscribers (publish w_full ev1) (ev_run_id ev1) ! 0)
      = (if length (q_items (subscribers w_full (ev_run_id ev1) ! 0)) = 256
         then tl (q_items (subscribers w_full (ev_run_id ev1) ! 0))
         else q_items (subscribers w_full (ev_run_id ev1) ! 0)) @ [ev1]"
    by (simp add: w_full_def ev1_def)
  then have "q_items (subscribers (publish w_full ev1) ''r1'' ! 0) = replicate 255 ev0 @ [ev1]"
    by (simp add: w_full_def ev1_def)
  then show ?thesis
    by (simp add: w_full_def ev1_def)
qed

section \<open>Executor: the retry path\<close>

text \<open>
  Claim C5.  For a failing attempt on the node at position \<open>i\<close>: when
  \<open>attempts \<le> max_retries\<close> the step row is written with status pending, the attempts
  and the structured error kept, the node is pending with \<open>last_error\<close> set, exactly one
  event \<^verbatim>\<open>step_retry_scheduled\<close> is appended with \<open>backoff_s = min(2^(attempts-1), 8)\<close>, and
  \<open>step_counter\<close> grows by one; when \<open>attempts > max_retries\<close> the step row is written
  failed with \<open>ended_at\<close> and the error, the node is failed, \<open>reflection_needed\<close> is set,
  the failure mode is timeout for code timeout, schema_error for code schema_error and
  other for every other code, and exactly one event \<^verbatim>\<open>step_failed\<close> is appended.
\<close>

theorem handle_step_error_retry_or_fail:
  assumes i: "i < length (nodes (dag st))"
  shows "(a \<le> m \<longrightarrow>
            get_step_by_node (snd (handle_step_error (st, w) sid i a m t0 err t1)) (run_id st)
                (node_id (nodes (dag st) ! i))
              = Some \<lparr>s_id = sid, s_run_id = run_id st, s_node_id = node_id (nodes (dag st) ! i),
                      s_status = Pending, s_attempts = a, s_max_retries = m,
                      s_started_at = Some t0, s_ended_at = Some t1,
                      s_input = \<lparr>in_task = task st,
                                 in_node = (nodes (dag st) ! i)\<lparr>n_status := Pending,
                                                                 last_error := Some err\<rparr>,
                                 in_request_id = None\<rparr>,
                      s_output = None, s_error = Some err, s_cost = None, s_logs = []\<rparr>
          \<and> nodes (dag (fst (handle_step_error (st, w) sid i a m t0 err t1)))
              = (nodes (dag st))[i := (nodes (dag st) ! i)\<lparr>n_status := Pending,
                                                            last_error := Some err\<rparr>]
          \<and> events (snd (handle_step_error (st, w) sid i a m t0 err t1))
              = events w @ [\<lparr>ev_run_id = run_id st, ev_step_id = Some sid,
                              ev_type = ''step_retry_scheduled'',
                              ev_payload = StepRetryScheduledP (node_id (nodes (dag st) ! i)) a m
                                             (min (py_pow2 (a - 1)) 8) err\<rparr>]
          \<and> (1 \<le> a \<longrightarrow> min (py_pow2 (a - 1)) 8 = of_int (min (2 ^ nat (a - 1)) 8))
          \<and> step_counter (fst (handle_step_error (st, w) sid i a m t0 err t1))
              = step_counter st + 1
          \<and> reflection_needed (fst (handle_step_error (st, w) sid i a m t0 err t1))
              = reflection_needed st)
       \<and> (m < a \<longrightarrow>
            get_step_by_node (snd (handle_step_error (st, w) sid i a m t0 err t1)) (run_id st)
                (node_id (nodes (dag st) ! i))
              = Some \<lparr>s_id = sid, s_run_id = run_id st, s_node_id = node_id (nodes (dag st) ! i),
                      s_status = Failed, s_attempts = a, s_max_retries = m,
                      s_started_at = Some t0, s_ended_at = Some t1,
                      s_input = \<lparr>in_task = task st,
                                 in_node = (nodes (dag st) ! i)\<lparr>n_status := Failed,
                                                                 last_error := Some err\<rparr>,
                                 in_request_id = None\<rparr>,
                      s_output = None, s_error = Some err, s_cost = None, s_logs = []\<rparr>
          \<and> nodes (dag (fst (handle_step_error (st, w) sid i a m t0 err t1)))
              = (nodes (dag st))[i := (nodes (dag st) ! i)\<lparr>n_status := Failed,
                                                            last_error := Some err\<rparr>]
          \<and> reflection_needed (fst (handle_step_error (st, w) sid i a m t0 err t1))
          \<and> failure_mode (fst (handle_step_error (st, w) sid i a m t0 err t1))
              = Some (if err_code err = TIMEOUT then FmTimeout
                      else if err_code err = SCHEMA_ERROR then FmSchemaError else FmOther)
          \<and> events (snd (handle_step_error (st, w) sid i a m t0 err t1))
              = events w @ [\<lparr>ev_run_id = run_id st, ev_step_id = Some sid,
                              ev_type = ''step_failed'',
                              ev_payload = StepFailedP (node_id (nodes (dag st) ! i)) err\<rparr>])"
proof (cases "a \<le> m")
  case True
  let ?p = "\<lparr>s_id = sid, s_run_id = run_id st, s_node_id = node_id (nodes (dag st) ! i),
                      s_status = Pending, s_attempts = a, s_max_retries = m,
                      s_started_at = Some t0, s_ended_at = Some t1,
                      s_input = \<lparr>in_task = task st,
                                 in_node = (nodes (dag st) ! i)\<lparr>n_status := Pending,
                                                                 last_error := Some err\<rparr>,
                                 in_request_id = None\<rparr>,
                      s_output = None, s_error = Some err, s_cost = None, s_logs = []\<rparr>"
  have "get_step_by_node (upsert_step w ?p) (s_run_id ?p) (s_node_id ?p) = Some ?p"
    by (rule get_step_by_node_upsert)
  with True i show ?thesis
    by (simp add: handle_step_error_def Let_def backoff_int)
next
  case False
  let ?p = "\<lparr>s_id = sid, s_run_id = run_id st, s_node_id = node_id (nodes (dag st) ! i),
                      s_status = Failed, s_attempts = a, s_max_retries = m,
                      s_started_at = Some t0, s_ended_at = Some t1,
                      s_input = \<lparr>in_task = task st,
                                 in_node = (nodes (dag st) ! i)\<lparr>n_status := Failed,
                                                                 last_error := Some err\<rparr>,
                                 in_request_id = None\<rparr>,
                      s_output = None, s_error = Some err, s_cost = None, s_logs = []\<rparr>"
  have "get_step_by_node (upsert_step w ?p) (s_run_id ?p) (s_node_id ?p) = Some ?p"
    by (rule get_step_by_node_upsert)
  with False i show ?thesis
    by (simp add: handle_step_error_def Let_def map_failure_mode_def)
qed

theorem handle_step_error_retry_or_fail_witness:
  "0 < length (nodes (dag st1))
   \<and> map s_status (steps (snd (handle_step_error (st1, w1) ''s1'' 0 1 1 5 err_tool 6))) = [Pending]
   \<and> map s_attempts (steps (snd (handle_step_error (st1, w1) ''s1'' 0 1 1 5 err_tool 6))) = [1]
   \<and> events (snd (handle_step_error (st1, w1) ''s1'' 0 1 1 5 err_tool 6))
        = [\<lparr>ev_run_id = ''run-1'', ev_step_id = Some ''s1'', ev_type = ''step_retry_scheduled'',
            ev_payload = StepRetryScheduledP ''execute_task'' 1 1 1 err_tool\<rparr>]
   \<and> step_counter (fst (handle_step_error (st1, w1) ''s1'' 0 1 1 5 err_tool 6)) = 1
   \<and> map s_status (steps (snd (handle_step_error (st1, w1) ''s1'' 0 2 1 5 err_tool 6))) = [Failed]
   \<and> failure_mode (fst (handle_step_error (st1, w1) ''s1'' 0 2 1 5 err_tool 6)) = Some FmOther
   \<and> reflection_needed (fst (handle_step_error (st1, w1) ''s1'' 0 2 1 5 err_tool 6))
   \<and> events (snd (handle_step_error (st1, w1) ''s1'' 0 2 1 5 err_tool 6))
        = [\<lparr>ev_run_id = ''run-1'', ev_step_id = Some ''s1'', ev_type = ''step_failed'',
            ev_payload = StepFailedP ''execute_task'' err_tool\<rparr>]"
proof -
  have i: "0 < length (nodes (dag st1))"
    by (simp add: st1_def dag1_def)
  note retry = handle_step_error_retry_or_fail [OF i, of 1 1 w1 "''s1''" 5 err_tool 6]
  note fail = handle_step_error_retry_or_fail [OF i, of 2 1 w1 "''s1''" 5 err_tool 6]
  have steps0: "steps w1 = []" and events0: "events w1 = []"
    by (simp_all add: w1_def)
  have nd: "nodes (dag st1) = [n_exec]" "run_id st1 = ''run-1''"
    by (simp_all add: st1_def dag1_def)
  have r1: "steps (snd (handle_step_error (st1, w1) ''s1'' 0 1 1 5 err_tool 6))
     = [\<lparr>s_id = ''s1'', s_run_id = ''run-1'', s_node_id = ''execute_task'',
                      s_status = Pending, s_attempts = 1, s_max_retries = 1,
                      s_started_at = Some 5, s_ended_at = Some 6,
                      s_input = \<lparr>in_task = task st1,
                                 in_node = n_exec\<lparr>n_status := Pending,
                                                                 last_error := Some err_tool\<rparr>,
                                 in_request_id = None\<rparr>,
                      s_output = None, s_error = Some err_tool, s_cost = None, s_logs = []\<rparr>]"
    by (simp add: handle_step_error_def Let_def upsert_step_def steps0 nd n_exec_def)
  have r2: "steps (snd (handle_step_error (st1, w1) ''s1'' 0 2 1 5 err_tool 6))
     = [\<lparr>s_id = ''s1'', s_run_id = ''run-1'', s_node_id = ''execute_task'',
                      s_status = Failed, s_attempts = 2, s_max_retries = 1,
                      s_started_at = Some 5, s_ended_at = Some 6,
                      s_input = \<lparr>in_task = task st1,
                                 in_node = n_exec\<lparr>n_status := Failed,
                                                                 last_error := Some err_tool\<rparr>,
                                 in_request_id = None\<rparr>,
                      s_output = None, s_error = Some err_tool, s_cost = None, s_logs = []\<rparr>]"
    by (simp add: handle_step_error_def Let_def upsert_step_def steps0 nd n_exec_def)
  have pw: "min (py_pow2 (1 - 1)) 8 = 1"
    by (simp add: py_pow2_def)
  have code: "err_code err_tool = TOOL_NOT_ALLOWED" and sc: "step_counter st1 = 0"
    by (simp_all add: err_tool_def st1_def)
  from retry fail i show ?thesis
    by (simp add: r1 r2 events0 nd n_exec_def code sc pw)
qed

section \<open>Node selection\<close>

lemma fold_node_map:
  fixes f :: "node \<Rightarrow> (string \<rightharpoonup> node) \<Rightarrow> (string \<rightharpoonup> node)"
  assumes f: "\<And>n m. f n m = m(node_id n \<mapsto> n)"
  shows "fold f ns m k
     = (case filter (\<lambda>d. node_id d = k) ns of [] \<Rightarrow> m k | d # ds \<Rightarrow> Some (last (d # ds)))"
proof (induction ns arbitrary: m)
  case Nil
  then show ?case by simp
next
  case (Cons n ns)
  have step: "fold f (n # ns) m k = fold f ns (f n m) k"
    by simp
  have upd: "f n m k = (if node_id n = k then Some n else m k)"
    by (auto simp: f)
  show ?case
    unfolding step Cons.IH
    by (cases "filter (\<lambda>d. node_id d = k) ns") (simp_all add: upd)
qed

lemma node_map_dep_node: "node_map ns k = dep_node ns k"
  unfolding node_map_def dep_node_def
  by (rule fold_node_map) simp

lemma dep_completed_node_map:
  "dep_completed (node_map ns) dep \<longleftrightarrow> (\<exists>d. dep_node ns dep = Some d \<and> n_status d = Completed)"
  by (simp add: dep_completed_def node_map_dep_node split: option.splits)

lemma runnable_iff:
  "runnable ns n \<longleftrightarrow> n_status n = Pending \<and> list_all (dep_completed (node_map ns)) (depends_on n)"
  by (simp add: runnable_def list_all_iff dep_completed_node_map)

lemma dep_node_None: "dep_node ns dep = None \<longleftrightarrow> dep \<notin> node_id ` set ns"
proof (cases "filter (\<lambda>d. node_id d = dep) ns")
  case Nil
  then have "dep \<notin> node_id ` set ns"
    by (auto simp: filter_empty_conv)
  with Nil show ?thesis
    by (simp add: dep_node_def)
next
  case (Cons d ds)
  then have "d \<in> set (filter (\<lambda>d. node_id d = dep) ns)"
    by simp
  then have "dep \<in> node_id ` set ns"
    by auto
  with Cons show ?thesis
    by (simp add: dep_node_def)
qed

lemma dep_node_distinct:
  assumes "distinct (map node_id ns)"
  shows "dep_node ns dep = Some d \<longleftrightarrow> d \<in> set ns \<and> node_id d = dep"
  using assms
proof (induction ns)
  case Nil
  then show ?case by (simp add: dep_node_def)
next
  case (Cons n ns)
  from Cons.prems have dist: "distinct (map node_id ns)"
    and notin: "node_id n \<notin> node_id ` set ns"
    by simp_all
  have fresh: "\<forall>x \<in> set ns. node_id x \<noteq> node_id n"
  proof
    fix x assume "x \<in> set ns"
    then have "node_id x \<in> node_id ` set ns" by (rule imageI)
    with notin show "node_id x \<noteq> node_id n" by metis
  qed
  from Cons.IH [OF dist] have IH: "dep_node ns dep = Some d \<longleftrightarrow> d \<in> set ns \<and> node_id d = dep" .
  show ?case
  proof (cases "node_id n = dep")
    case True
    with fresh have "filter (\<lambda>d. node_id d = dep) ns = []"
      by (auto simp: filter_empty_conv)
    with True have "dep_node (n # ns) dep = Some n"
      by (simp add: dep_node_def)
    with True fresh show ?thesis
      by auto
  next
    case False
    then have "dep_node (n # ns) dep = dep_node ns dep"
      by (simp add: dep_node_def)
    with False IH show ?thesis by auto
  qed
qed

lemma scan_runnable_None:
  "scan_runnable m ns i = None
     \<longleftrightarrow> (\<forall>n \<in> set ns. \<not> (n_status n = Pending \<and> list_all (dep_completed m) (depends_on n)))"
  by (induction ns arbitrary: i) auto

lemma scan_runnable_Some:
  assumes "scan_runnable m ns i = Some j"
  shows "i \<le> j \<and> j - i < length ns
       \<and> n_status (ns ! (j - i)) = Pending
       \<and> list_all (dep_completed m) (depends_on (ns ! (j - i)))
       \<and> (\<forall>k < j - i. \<not> (n_status (ns ! k) = Pending
                            \<and> list_all (dep_completed m) (depends_on (ns ! k))))"
  using assms
proof (induction ns arbitrary: i)
  case Nil
  then show ?case by simp
next
  case (Cons n ns)
  show ?case
  proof (cases "n_status n = Pending \<and> list_all (dep_completed m) (depends_on n)")
    case True
    with Cons.prems have "j = i" by simp
    with True show ?thesis by simp
  next
    case False
    with Cons.prems have rec: "scan_runnable m ns (Suc i) = Some j"
      by (auto split: if_splits)
    from Cons.IH [OF rec] have le: "Suc i \<le> j" and len: "j - Suc i < length ns"
      and hit: "n_status (ns ! (j - Suc i)) = Pending"
               "list_all (dep_completed m) (depends_on (ns ! (j - Suc i)))"
      and before: "\<forall>k < j - Suc i. \<not> (n_status (ns ! k) = Pending
                            \<and> list_all (dep_completed m) (depends_on (ns ! k)))"
      by simp_all
    from le have ji: "j - i = Suc (j - Suc i)" by simp
    have "\<not> (n_status ((n # ns) ! k) = Pending
              \<and> list_all (dep_completed m) (depends_on ((n # ns) ! k)))" if "k < j - i" for k
    proof (cases k)
      case 0
      with False show ?thesis by simp
    next
      case (Suc k')
      with that ji have "k' < j - Suc i" by simp
      with before Suc show ?thesis by simp
    qed
    with le len hit ji show ?thesis by simp
  qed
qed

lemma scan_has_runnable_iff: "scan_has_runnable m ns \<longleftrightarrow> scan_runnable m ns i \<noteq> None"
  by (induction ns arbitrary: i) auto

lemma next_runnable_node_None:
  "next_runnable_node g = None \<longleftrightarrow> (\<forall>n \<in> set (nodes g). \<not> runnable (nodes g) n)"
  by (simp add: next_runnable_node_def scan_runnable_None runnable_iff)

lemma next_runnable_node_Some:
  assumes "next_runnable_node g = Some i"
  shows "i < length (nodes g) \<and> runnable (nodes g) (nodes g ! i)
         \<and> (\<forall>j < i. \<not> runnable (nodes g) (nodes g ! j))"
  using scan_runnable_Some [of "node_map (nodes g)" "nodes g" 0 i] assms
  by (simp add: next_runnable_node_def runnable_iff)

lemma has_runnable_nodes_iff:
  "has_runnable_nodes g \<longleftrightarrow> (\<exists>n \<in> set (nodes g). runnable (nodes g) n)"
  using scan_has_runnable_iff [of "node_map (nodes g)" "nodes g" 0]
  by (simp add: has_runnable_nodes_def scan_runnable_None runnable_iff)

section \<open>Executor: outcome of one attempt\<close>

lemma handle_step_error_state:
  "progress_made (fst (handle_step_error (st, w) sid i a m t0 err t1)) = progress_made st"
  "reflection_model_preference (fst (handle_step_error (st, w) sid i a m t0 err t1))
     = reflection_model_preference st"
  "run_id (fst (handle_step_error (st, w) sid i a m t0 err t1)) = run_id st"
  "nodes (dag (fst (handle_step_error (st, w) sid i a m t0 err t1)))
     = (nodes (dag st))[i := (nodes (dag st) ! i)\<lparr>n_status := (if a \<le> m then Pending else Failed),
                                                   last_error := Some err\<rparr>]"
  by (simp_all add: handle_step_error_def Let_def)

lemma handle_step_error_events:
  "\<exists>e. events (snd (handle_step_error (st, w) sid i a m t0 err t1)) = events w @ [e]"
  by (simp add: handle_step_error_def Let_def)

lemma handle_step_error_step:
  assumes "i < length (nodes (dag st))"
  shows "\<exists>row. get_step_by_node (snd (handle_step_error (st, w) sid i a m t0 err t1)) (run_id st)
                  (node_id (nodes (dag st) ! i)) = Some row
               \<and> s_attempts row = a \<and> s_max_retries row = m
               \<and> s_status row = (if a \<le> m then Pending else Failed)"
proof (cases "a \<le> m")
  case True
  let ?p = "\<lparr>s_id = sid, s_run_id = run_id st, s_node_id = node_id (nodes (dag st) ! i),
                      s_status = Pending, s_attempts = a, s_max_retries = m,
                      s_started_at = Some t0, s_ended_at = Some t1,
                      s_input = \<lparr>in_task = task st,
                                 in_node = (nodes (dag st) ! i)\<lparr>n_status := Pending,
                                                                 last_error := Some err\<rparr>,
                                 in_request_id = None\<rparr>,
                      s_output = None, s_error = Some err, s_cost = None, s_logs = []\<rparr>"
  have "get_step_by_node (upsert_step w ?p) (s_run_id ?p) (s_node_id ?p) = Some ?p"
    by (rule get_step_by_node_upsert)
  with True assms show ?thesis
    by (simp add: handle_step_error_def Let_def)
next
  case False
  let ?p = "\<lparr>s_id = sid, s_run_id = run_id st, s_node_id = node_id (nodes (dag st) ! i),
                      s_status = Failed, s_attempts = a, s_max_retries = m,
                      s_started_at = Some t0, s_ended_at = Some t1,
                      s_input = \<lparr>in_task = task st,
                                 in_node = (nodes (dag st) ! i)\<lparr>n_status := Failed,
                                                                 last_error := Some err\<rparr>,
                                 in_request_id = None\<rparr>,
                      s_output = None, s_error = Some err, s_cost = None, s_logs = []\<rparr>"
  have "get_step_by_node (upsert_step w ?p) (s_run_id ?p) (s_node_id ?p) = Some ?p"
    by (rule get_step_by_node_upsert)
  with False assms show ?thesis
    by (simp add: handle_step_error_def Let_def)
qed

lemma get_step_by_node_proj2 [simp]:
  "get_step_by_node (create_cost_entry w r) a b = get_step_by_node w a b"
  "get_step_by_node (increment_run_totals w rid p c t u) a b = get_step_by_node w a b"
  by (simp_all add: get_step_by_node_def)

lemma record_success_state:
  "progress_made (fst (record_success cfg (st, w) sid i a m t0 t1 rq resp model out)) = progress_made st"
  "reflection_model_preference (fst (record_success cfg (st, w) sid i a m t0 t1 rq resp model out))
     = reflection_model_preference st"
  "run_id (fst (record_success cfg (st, w) sid i a m t0 t1 rq resp model out)) = run_id st"
  "nodes (dag (fst (record_success cfg (st, w) sid i a m t0 t1 rq resp model out)))
     = (nodes (dag st))[i := (nodes (dag st) ! i)\<lparr>n_status := Completed, last_output := Some out,
                                                   last_error := None\<rparr>]"
  by (simp_all add: record_success_def Let_def)

lemma record_success_events:
  "\<exists>e. events (snd (record_success cfg (st, w) sid i a m t0 t1 rq resp model out)) = events w @ [e]"
  by (simp add: record_success_def Let_def)

lemma record_success_step:
  "\<exists>row. get_step_by_node (snd (record_success cfg (st, w) sid i a m t0 t1 rq resp model out))
             (run_id st) (node_id (nodes (dag st) ! i)) = Some row
         \<and> s_attempts row = a \<and> s_max_retries row = m \<and> s_status row = Completed"
proof -
  let ?cost = "estimate cfg model (lr_prompt_tokens resp) (lr_completion_tokens resp)"
  let ?p = "\<lparr>s_id = sid, s_run_id = run_id st, s_node_id = node_id (nodes (dag st) ! i),
                  s_status = Completed, s_attempts = a, s_max_retries = m,
                  s_started_at = Some t0, s_ended_at = Some t1,
                  s_input = \<lparr>in_task = task st, in_node = nodes (dag st) ! i,
                             in_request_id = Some rq\<rparr>,
                  s_output = Some out, s_error = None,
                  s_cost = Some \<lparr>cp_provider = lr_provider resp, cp_model = model,
                     cp_prompt_tokens = ce_prompt_tokens ?cost,
                     cp_completion_tokens = ce_completion_tokens ?cost,
                     cp_total_tokens = ce_total_tokens ?cost, cp_usd = ce_usd ?cost\<rparr>,
                  s_logs = []\<rparr>"
  have "get_step_by_node (upsert_step w ?p) (s_run_id ?p) (s_node_id ?p) = Some ?p"
    by (rule get_step_by_node_upsert)
  then show ?thesis
    by (simp add: record_success_def Let_def)
qed

lemma execute_next_None:
  "next_runnable_node (dag st) = None
     \<Longrightarrow> execute_next cfg llm u t0 t1 rq (st, w) = (st\<lparr>progress_made := False\<rparr>, w)"
  by (simp add: execute_next_def)

lemma execute_next_Some:
  assumes sel: "next_runnable_node (dag st) = Some i" and i: "i < length (nodes (dag st))"
  shows "progress_made (fst (execute_next cfg llm u t0 t1 rq (st, w)))"
    and "reflection_model_preference (fst (execute_next cfg llm u t0 t1 rq (st, w)))
           = reflection_model_preference st"
    and "\<exists>x. nodes (dag (fst (execute_next cfg llm u t0 t1 rq (st, w)))) = (nodes (dag st))[i := x]
             \<and> node_id x = node_id (nodes (dag st) ! i)
             \<and> n_status x \<in> {Completed, Pending, Failed}"
    and "\<exists>sid rest. events (snd (execute_next cfg llm u t0 t1 rq (st, w)))
           = events w @ \<lparr>ev_run_id = run_id st, ev_step_id = Some sid, ev_type = ''step_started'',
                          ev_payload = StepStartedP (node_id (nodes (dag st) ! i))
                                         (attempt_no w (run_id st) (node_id (nodes (dag st) ! i)))\<rparr>
                        # rest"
    and "\<exists>row. get_step_by_node (snd (execute_next cfg llm u t0 t1 rq (st, w))) (run_id st)
                  (node_id (nodes (dag st) ! i)) = Some row
             \<and> s_attempts row = attempt_no w (run_id st) (node_id (nodes (dag st) ! i))
             \<and> s_status row \<in> {Completed, Pending, Failed}"
proof -
  let ?ns = "nodes (dag st)"
  let ?nid = "node_id (?ns ! i)"
  define st2 where "st2 = set_node (st\<lparr>progress_made := True\<rparr>) i (\<lambda>n. n\<lparr>n_status := Running\<rparr>)"
  define c where "c = (case map_of (contracts (dag st)) ?nid of None \<Rightarrow> empty_contract | Some c \<Rightarrow> c)"
  define sid where "sid = (case get_step_by_node w (run_id st) ?nid of Some r \<Rightarrow> s_id r | None \<Rightarrow> u)"
  define a where "a = attempt_no w (run_id st) ?nid"
  define m where "m = (case max_retries c of None \<Rightarrow> 2 | Some m \<Rightarrow> m)"
  define started where "started = \<lparr>ev_run_id = run_id st, ev_step_id = Some sid,
       ev_type = ''step_started'', ev_payload = StepStartedP ?nid a\<rparr>"
  define w3 where "w3 = emit_event (upsert_step (update_run w (run_id st) [SetDag (dag st2)])
         \<lparr>s_id = sid, s_run_id = run_id st, s_node_id = ?nid,
          s_status = Running, s_attempts = a, s_max_retries = m,
          s_started_at = Some t0, s_ended_at = None,
          s_input = \<lparr>in_task = task st, in_node = nodes (dag st2) ! i, in_request_id = Some rq\<rparr>,
          s_output = None, s_error = None, s_cost = None, s_logs = []\<rparr>) started"
  have st2: "run_id st2 = run_id st" "task st2 = task st" "progress_made st2"
    "reflection_model_preference st2 = reflection_model_preference st"
    "nodes (dag st2) = ?ns[i := (?ns ! i)\<lparr>n_status := Running\<rparr>]"
    by (simp_all add: st2_def)
  have nd2: "nodes (dag st2) ! i = (?ns ! i)\<lparr>n_status := Running\<rparr>" and len2: "i < length (nodes (dag st2))"
    using i by (simp_all add: st2)
  have ev3: "events w3 = events w @ [started]"
    by (simp add: w3_def)
  have unfold: "execute_next cfg llm u t0 t1 rq (st, w)
      = (case try_step cfg llm st2 (nodes (dag st2) ! i) c of
           Inl err \<Rightarrow> handle_step_error (st2, w3) sid i a m t0 err t1
         | Inr (resp, model, validated) \<Rightarrow>
             record_success cfg (st2, w3) sid i a m t0 t1 rq resp model validated)"
    using sel
    by (simp add: execute_next_def Let_def st2_def c_def sid_def a_def attempt_no_def m_def
        started_def w3_def split: sum.splits prod.splits)
  show "progress_made (fst (execute_next cfg llm u t0 t1 rq (st, w)))"
    unfolding unfold
    by (auto split: sum.splits simp: handle_step_error_state record_success_state st2)
  show "reflection_model_preference (fst (execute_next cfg llm u t0 t1 rq (st, w)))
           = reflection_model_preference st"
    unfolding unfold
    by (auto split: sum.splits simp: handle_step_error_state record_success_state st2)
  show "\<exists>x. nodes (dag (fst (execute_next cfg llm u t0 t1 rq (st, w)))) = ?ns[i := x]
             \<and> node_id x = ?nid \<and> n_status x \<in> {Completed, Pending, Failed}"
    unfolding unfold using i
    by (auto split: sum.splits simp: handle_step_error_state record_success_state st2)
  show "\<exists>sid rest. events (snd (execute_next cfg llm u t0 t1 rq (st, w)))
           = events w @ \<lparr>ev_run_id = run_id st, ev_step_id = Some sid, ev_type = ''step_started'',
                          ev_payload = StepStartedP ?nid (attempt_no w (run_id st) ?nid)\<rparr> # rest"
  proof (cases "try_step cfg llm st2 (nodes (dag st2) ! i) c")
    case (Inl err)
    from handle_step_error_events [of st2 w3 sid i a m t0 err t1] Inl show ?thesis
      unfolding unfold by (auto simp: ev3 started_def a_def)
  next
    case (Inr t)
    obtain resp model validated where t: "t = (resp, model, validated)"
      by (cases t)
    from record_success_events [of cfg st2 w3 sid i a m t0 t1 rq resp model validated] Inr t
    show ?thesis
      unfolding unfold by (auto simp: ev3 started_def a_def)
  qed
  show "\<exists>row. get_step_by_node (snd (execute_next cfg llm u t0 t1 rq (st, w))) (run_id st) ?nid
                 = Some row
             \<and> s_attempts row = attempt_no w (run_id st) ?nid
             \<and> s_status row \<in> {Completed, Pending, Failed}"
  proof (cases "try_step cfg llm st2 (nodes (dag st2) ! i) c")
    case (Inl err)
    from handle_step_error_step [OF len2, of w3 sid a m t0 err t1] Inl show ?thesis
      unfolding unfold using i by (auto simp: st2 a_def)
  next
    case (Inr t)
    obtain resp model validated where t: "t = (resp, model, validated)"
      by (cases t)
    from record_success_step [of cfg st2 w3 sid i a m t0 t1 rq resp model validated] Inr t
    show ?thesis
      unfolding unfold using i by (auto simp: st2 a_def)
  qed
qed

section \<open>Executor: node selection\<close>

lemma runnable_distinct:
  assumes "distinct (map node_id ns)"
  shows "runnable ns n \<longleftrightarrow>
           n_status n = Pending
           \<and> (\<forall>dep \<in> set (depends_on n). \<exists>d \<in> set ns. node_id d = dep \<and> n_status d = Completed)"
  unfolding runnable_def dep_node_distinct [OF assms] by blast

text \<open>
  Claim C7.  \<^verbatim>\<open>execute_next\<close> selects the first node in declaration order that is
  pending and whose every listed dependency is completed.  If there is none, the result is
  the input state with \<open>progress_made = False\<close> and the unchanged world (DAG, step rows and
  events included).  Otherwise \<open>progress_made\<close> is set and the tick works on that node and
  no other: a \<^verbatim>\<open>step_started\<close> event for it follows the old events, its step row carries
  the next attempt number, and only its position of the node list changes.
\<close>

theorem execute_next_selects_first_runnable:
  "(next_runnable_node (dag st) = None
      \<longleftrightarrow> (\<forall>n \<in> set (nodes (dag st)). \<not> runnable (nodes (dag st)) n))
   \<and> (next_runnable_node (dag st) = None
        \<longrightarrow> execute_next cfg llm u t0 t1 rq (st, w) = (st\<lparr>progress_made := False\<rparr>, w))
   \<and> (\<forall>i. next_runnable_node (dag st) = Some i \<longrightarrow>
          i < length (nodes (dag st))
        \<and> runnable (nodes (dag st)) (nodes (dag st) ! i)
        \<and> (\<forall>j < i. \<not> runnable (nodes (dag st)) (nodes (dag st) ! j))
        \<and> progress_made (fst (execute_next cfg llm u t0 t1 rq (st, w)))
        \<and> (\<exists>x. nodes (dag (fst (execute_next cfg llm u t0 t1 rq (st, w))))
                   = (nodes (dag st))[i := x]
                \<and> node_id x = node_id (nodes (dag st) ! i)
                \<and> n_status x \<in> {Completed, Pending, Failed})
        \<and> (\<exists>sid rest. events (snd (execute_next cfg llm u t0 t1 rq (st, w)))
               = events w
                 @ \<lparr>ev_run_id = run_id st, ev_step_id = Some sid, ev_type = ''step_started'',
                    ev_payload = StepStartedP (node_id (nodes (dag st) ! i))
                      (attempt_no w (run_id st) (node_id (nodes (dag st) ! i)))\<rparr>
                 # rest)
        \<and> (\<exists>row. get_step_by_node (snd (execute_next cfg llm u t0 t1 rq (st, w))) (run_id st)
                      (node_id (nodes (dag st) ! i)) = Some row
                \<and> s_attempts row = attempt_no w (run_id st) (node_id (nodes (dag st) ! i))
                \<and> s_status row \<in> {Completed, Pending, Failed}))
   \<and> (distinct (map node_id (nodes (dag st))) \<longrightarrow>
        (\<forall>n. runnable (nodes (dag st)) n \<longleftrightarrow>
               n_status n = Pending
               \<and> (\<forall>dep \<in> set (depends_on n).
                     \<exists>d \<in> set (nodes (dag st)). node_id d = dep \<and> n_status d = Completed)))"
proof (intro conjI allI impI)
  show "next_runnable_node (dag st) = None
      \<longleftrightarrow> (\<forall>n \<in> set (nodes (dag st)). \<not> runnable (nodes (dag st)) n)"
    by (rule next_runnable_node_None)
next
  assume "next_runnable_node (dag st) = None"
  then show "execute_next cfg llm u t0 t1 rq (st, w) = (st\<lparr>progress_made := False\<rparr>, w)"
    by (rule execute_next_None)
next
  fix n
  assume "distinct (map node_id (nodes (dag st)))"
  then show "runnable (nodes (dag st)) n \<longleftrightarrow>
               n_status n = Pending
               \<and> (\<forall>dep \<in> set (depends_on n).
                     \<exists>d \<in> set (nodes (dag st)). node_id d = dep \<and> n_status d = Completed)"
    by (rule runnable_distinct)
next
  fix i
  assume sel: "next_runnable_node (dag st) = Some i"
  from next_runnable_node_Some [OF sel]
  show i: "i < length (nodes (dag st))"
    and "runnable (nodes (dag st)) (nodes (dag st) ! i)"
    by simp_all
  from execute_next_Some [OF sel i, of cfg llm u t0 t1 rq w]
  show "progress_made (fst (execute_next cfg llm u t0 t1 rq (st, w)))"
    and "\<exists>x. nodes (dag (fst (execute_next cfg llm u t0 t1 rq (st, w))))
                   = (nodes (dag st))[i := x]
                \<and> node_id x = node_id (nodes (dag st) ! i)
                \<and> n_status x \<in> {Completed, Pending, Failed}"
    and "\<exists>sid rest. events (snd (execute_next cfg llm u t0 t1 rq (st, w)))
               = events w
                 @ \<lparr>ev_run_id = run_id st, ev_step_id = Some sid, ev_type = ''step_started'',
                    ev_payload = StepStartedP (node_id (nodes (dag st) ! i))
                      (attempt_no w (run_id st) (node_id (nodes (dag st) ! i)))\<rparr>
                 # rest"
    and "\<exists>row. get_step_by_node (snd (execute_next cfg llm u t0 t1 rq (st, w))) (run_id st)
                      (node_id (nodes (dag st) ! i)) = Some row
                \<and> s_attempts row = attempt_no w (run_id st) (node_id (nodes (dag st) ! i))
                \<and> s_status row \<in> {Completed, Pending, Failed}"
    by simp_all
  fix j
  assume "j < i"
  with next_runnable_node_Some [OF sel]
  show "\<not> runnable (nodes (dag st)) (nodes (dag st) ! j)"
    by simp
qed

lemma next_st1: "next_runnable_node (dag st1) = Some 0"
  by (simp add: next_runnable_node_def st1_def dag1_def n_exec_def)

lemma next_blocked: "next_runnable_node (dag st_blocked) = None"
  by (simp add: next_runnable_node_def st_blocked_def n_blocked_def node_map_def dep_completed_def)

theorem execute_next_selects_first_runnable_witness:
  "next_runnable_node (dag st1) = Some 0
   \<and> progress_made (fst (execute_next cfg0 llm_ok ''u1'' 5 6 ''req-1'' (st1, w1)))
   \<and> next_runnable_node (dag st_blocked) = None
   \<and> execute_next cfg0 llm_ok ''u1'' 5 6 ''req-1'' (st_blocked, w1)
       = (st_blocked\<lparr>progress_made := False\<rparr>, w1)
   \<and> distinct (map node_id (nodes (dag st1)))"
  using execute_next_selects_first_runnable [of st1 cfg0 llm_ok "''u1''" 5 6 "''req-1''" w1]
    execute_next_selects_first_runnable [of st_blocked cfg0 llm_ok "''u1''" 5 6 "''req-1''" w1]
    next_st1 next_blocked
  by (simp add: st1_def dag1_def)

section \<open>Monitor: the decision table\<close>

lemma statuses_all: "list_all P (map n_status ns) \<longleftrightarrow> (\<forall>n \<in> set ns. P (n_status n))"
  by (simp add: list_all_iff)

lemma statuses_ex: "list_ex P (map n_status ns) \<longleftrightarrow> (\<exists>n \<in> set ns. P (n_status n))"
  by (simp add: list_ex_iff)

lemma py_int_nonneg: "0 \<le> x \<Longrightarrow> n \<le> py_int x \<longleftrightarrow> of_int n \<le> x"
  by (simp add: py_int_def le_floor_iff)

lemma evaluate_missing:
  "get_run w (run_id st) = None \<Longrightarrow>
     evaluate st w now = Inr (st\<lparr>should_finish := True, finish_status := Some RunFailed,
                  finish_reason := Some ''run_missing''\<rparr>)"
  by (simp add: evaluate_def)

lemma evaluate_cancel:
  "get_run w (run_id st) = Some run \<Longrightarrow> cancel_requested run \<Longrightarrow>
     evaluate st w now = Inr (st\<lparr>should_finish := True, finish_status := Some RunCanceled,
                     finish_reason := Some ''cancel_requested''\<rparr>)"
  by (simp add: evaluate_def Let_def)

lemma first_match_False: "first_match (False # bs) = (case first_match bs of 0 \<Rightarrow> 0 | Suc k \<Rightarrow> Suc (Suc k))"
  by simp

lemma evaluate_decision:
  assumes mono: "run_started_monotonic st \<le> now"
  shows "case evaluate st w now of
           Inl e \<Rightarrow> e = ZeroDivisionError \<and> reflection_interval_steps (constraints st) = 0
                     \<and> 0 < step_counter st
                     \<and> first_match (spec_guards st (get_run w (run_id st))
                                      (now - run_started_monotonic st)) = 0
         | Inr st' \<Rightarrow>
             decision_of st'
               = spec_decision (first_match (spec_guards st (get_run w (run_id st))
                                               (now - run_started_monotonic st))) st
           \<and> (case spec_failure_mode (first_match (spec_guards st (get_run w (run_id st))
                                               (now - run_started_monotonic st))) st of
                 None \<Rightarrow> True | Some fm \<Rightarrow> failure_mode st' = fm)"
proof (cases "get_run w (run_id st)")
  case None
  then show ?thesis
    by (simp add: evaluate_missing spec_guards_def Let_def spec_decision_def decision_of_def
        finish_with_def spec_failure_mode_def)
next
  case (Some run)
  let ?ns = "nodes (dag st)"
  let ?cons = "constraints st"
  define G2 where "G2 \<longleftrightarrow> cancel_requested run"
  define G3 where "G3 \<longleftrightarrow> of_int (c_timeout_s ?cons) \<le> now - run_started_monotonic st"
  define G4 where "G4 \<longleftrightarrow> budget_usd ?cons \<le> total_usd run"
  define G5 where "G5 \<longleftrightarrow> (\<forall>n \<in> set ?ns. n_status n \<in> {Completed, Skipped}) \<and> ?ns \<noteq> []"
  define G6 where "G6 \<longleftrightarrow> \<not> (\<exists>n \<in> set ?ns. runnable ?ns n) \<and> \<not> (\<exists>n \<in> set ?ns. n_status n = Running)
         \<and> (\<exists>n \<in> set ?ns. n_status n = Pending)"
  define G7 where "G7 \<longleftrightarrow> \<not> (\<exists>n \<in> set ?ns. n_status n \<in> {Pending, Running})
         \<and> (\<exists>n \<in> set ?ns. n_status n = Failed)"
  define G8 where "G8 \<longleftrightarrow> max_steps ?cons \<le> step_counter st"
  define G9 where "G9 \<longleftrightarrow> 0 < step_counter st
         \<and> step_counter st mod reflection_interval_steps ?cons = 0 \<and> progress_made st"
  define k where "k = first_match [False, G2, G3, G4, G5, G6, G7, G8, G9]"
  have guards: "first_match (spec_guards st (get_run w (run_id st)) (now - run_started_monotonic st)) = k"
    unfolding k_def G2_def G3_def G4_def G5_def G6_def G7_def G8_def G9_def
    by (simp add: spec_guards_def Some Let_def split del: if_split)
  from mono have el: "0 \<le> now - run_started_monotonic st" by simp
  have c3: "c_timeout_s ?cons \<le> py_int (now - run_started_monotonic st) \<longleftrightarrow> G3"
    unfolding G3_def by (rule py_int_nonneg [OF el])
  have c5: "list_all (\<lambda>s. s \<in> {Completed, Skipped}) (map n_status ?ns) \<and> map n_status ?ns \<noteq> [] \<longleftrightarrow> G5"
    unfolding G5_def by (simp add: statuses_all)
  have c6: "\<not> has_runnable_nodes (dag st) \<and> list_ex (\<lambda>s. s = Pending) (map n_status ?ns)
                   \<and> \<not> list_ex (\<lambda>s. s = Running) (map n_status ?ns) \<longleftrightarrow> G6"
    unfolding G6_def by (auto simp: statuses_ex has_runnable_nodes_iff)
  have c7: "\<not> list_ex (\<lambda>s. s \<in> {Pending, Running}) (map n_status ?ns)
                   \<and> list_ex (\<lambda>s. s = Failed) (map n_status ?ns) \<longleftrightarrow> G7"
    unfolding G7_def by (simp add: statuses_ex)
  have ev: "evaluate st w now =
       (if G2 then
             Inr (st\<lparr>should_finish := True, finish_status := Some RunCanceled,
                     finish_reason := Some ''cancel_requested''\<rparr>)
           else if G3 then
             Inr (st\<lparr>should_finish := True, finish_status := Some RunFailed,
                     finish_reason := Some ''timeout'', reflection_needed := True,
                     reflection_reason := Some ''Run timeout exceeded'',
                     failure_mode := Some FmTimeout\<rparr>)
           else if G4 then
             Inr (st\<lparr>should_finish := True, finish_status := Some RunFailed,
                     finish_reason := Some ''budget_exceeded'', reflection_needed := True,
                     reflection_reason := Some ''Budget cap exceeded'',
                     failure_mode := Some FmBudgetRisk\<rparr>)
           else if G5 then
             Inr (st\<lparr>should_finish := True, finish_status := Some RunCompleted,
                     finish_reason := Some ''all_steps_completed''\<rparr>)
           else if G6 then
             Inr (st\<lparr>should_finish := True, finish_status := Some RunFailed,
                     finish_reason := Some ''dependency_deadlock'', reflection_needed := True,
                     reflection_reason := Some ''No runnable steps due to unmet dependencies'',
                     failure_mode :=
                       Some (case failure_mode st of None \<Rightarrow> FmOther | Some m \<Rightarrow> m)\<rparr>)
           else if G7 then
             Inr (st\<lparr>should_finish := True, finish_status := Some RunFailed,
                     finish_reason := Some ''steps_failed'', reflection_needed := True,
                     reflection_reason := Some ''One or more steps failed'',
                     failure_mode :=
                       Some (case failure_mode st of None \<Rightarrow> FmOther | Some m \<Rightarrow> m)\<rparr>)
           else if G8 then
             Inr (st\<lparr>should_finish := True, finish_status := Some RunFailed,
                     finish_reason := Some ''max_steps_exceeded'', reflection_needed := True,
                     reflection_reason := Some ''Max steps exceeded'',
                     failure_mode := Some FmOther\<rparr>)
           else if 0 < step_counter st then
             (if reflection_interval_steps ?cons = 0 then Inl ZeroDivisionError
              else if step_counter st mod reflection_interval_steps ?cons = 0
                      \<and> progress_made st then
                Inr (st\<lparr>reflection_needed := True,
                        reflection_reason := Some ''Periodic reflection boundary reached'',
                        failure_mode :=
                          Some (case failure_mode st of
                                  None \<Rightarrow> FmLowConfidence | Some m \<Rightarrow> m),
                        progress_made := False\<rparr>)
              else Inr st)
           else Inr st)"
    unfolding evaluate_def Some option.case Let_def c3 c5 c6 c7
    unfolding G2_def G4_def G8_def ..
  consider (r2) "G2"
    | (r3) "\<not> G2" "G3"
    | (r4) "\<not> G2" "\<not> G3" "G4"
    | (r5) "\<not> G2" "\<not> G3" "\<not> G4" "G5"
    | (r6) "\<not> G2" "\<not> G3" "\<not> G4" "\<not> G5" "G6"
    | (r7) "\<not> G2" "\<not> G3" "\<not> G4" "\<not> G5" "\<not> G6" "G7"
    | (r8) "\<not> G2" "\<not> G3" "\<not> G4" "\<not> G5" "\<not> G6" "\<not> G7" "G8"
    | (r9) "\<not> G2" "\<not> G3" "\<not> G4" "\<not> G5" "\<not> G6" "\<not> G7" "\<not> G8" "G9"
    | (r0) "\<not> G2" "\<not> G3" "\<not> G4" "\<not> G5" "\<not> G6" "\<not> G7" "\<not> G8" "\<not> G9"
    by blast
  then show ?thesis
  proof cases
    case r2
    then have "k = 2" by (simp add: k_def)
    with r2 show ?thesis unfolding guards ev
      by (simp add: spec_decision_def decision_of_def finish_with_def spec_failure_mode_def)
  next
    case r3
    then have "k = 3" by (simp add: k_def)
    with r3 show ?thesis unfolding guards ev
      by (simp add: spec_decision_def decision_of_def finish_with_def spec_failure_mode_def)
  next
    case r4
    then have "k = 4" by (simp add: k_def)
    with r4 show ?thesis unfolding guards ev
      by (simp add: spec_decision_def decision_of_def finish_with_def spec_failure_mode_def)
  next
    case r5
    then have "k = 5" by (simp add: k_def)
    with r5 show ?thesis unfolding guards ev
      by (simp add: spec_decision_def decision_of_def finish_with_def spec_failure_mode_def)
  next
    case r6
    then have "k = 6" by (simp add: k_def)
    with r6 show ?thesis unfolding guards ev
      by (simp add: spec_decision_def decision_of_def finish_with_def spec_failure_mode_def)
  next
    case r7
    then have "k = 7" by (simp add: k_def)
    with r7 show ?thesis unfolding guards ev
      by (simp add: spec_decision_def decision_of_def finish_with_def spec_failure_mode_def)
  next
    case r8
    then have "k = 8" by (simp add: k_def)
    with r8 show ?thesis unfolding guards ev
      by (simp add: spec_decision_def decision_of_def finish_with_def spec_failure_mode_def)
  next
    case r9
    then have "k = 9" by (simp add: k_def)
    moreover from r9 have "0 < step_counter st" "reflection_interval_steps ?cons \<noteq> 0"
      "step_counter st mod reflection_interval_steps ?cons = 0" "progress_made st"
      by (auto simp: G9_def)
    ultimately show ?thesis using r9 unfolding guards ev
      by (simp add: spec_decision_def decision_of_def finish_with_def spec_failure_mode_def)
  next
    case r0
    then have k0: "k = 0" by (simp add: k_def)
    from r0 have g9: "\<not> (0 < step_counter st
         \<and> step_counter st mod reflection_interval_steps ?cons = 0 \<and> progress_made st)"
      by (simp add: G9_def)
    show ?thesis
    proof (cases "0 < step_counter st \<and> reflection_interval_steps ?cons = 0")
      case True
      with r0 k0 show ?thesis unfolding guards ev
        by simp
    next
      case False
      with r0 k0 g9 show ?thesis unfolding guards ev
        by (auto simp: spec_decision_def decision_of_def spec_failure_mode_def)
    qed
  qed
qed

text \<open>
  Claim C6.  \<^verbatim>\<open>evaluate\<close> applies the nine rules of the specification in their order,
  the first match winning: on a monotonic clock its decision (finish flag, status and
  reason, reflection flag, progress flag) is the one the specification attaches to the
  first guard of the table that holds, with the failure mode the rule names; it raises
  only when no rule up to the eighth matches and the ninth divides by a zero interval.  In
  particular, when the run exists and has \<open>cancel_requested\<close> set, the result is the state
  with \<open>should_finish\<close> set, status canceled and reason \<^verbatim>\<open>cancel_requested\<close>, whatever the
  elapsed time, the cost, the node statuses and the step counter are.
\<close>

theorem monitor_first_match_wins:
  "(run_started_monotonic st \<le> now \<longrightarrow>
      (case evaluate st w now of
         Inl e \<Rightarrow> e = ZeroDivisionError \<and> reflection_interval_steps (constraints st) = 0
                   \<and> 0 < step_counter st
                   \<and> first_match (spec_guards st (get_run w (run_id st))
                                    (now - run_started_monotonic st)) = 0
       | Inr st' \<Rightarrow>
           decision_of st'
             = spec_decision (first_match (spec_guards st (get_run w (run_id st))
                                             (now - run_started_monotonic st))) st
         \<and> (case spec_failure_mode (first_match (spec_guards st (get_run w (run_id st))
                                             (now - run_started_monotonic st))) st of
               None \<Rightarrow> True | Some fm \<Rightarrow> failure_mode st' = fm)))
   \<and> (\<forall>run. get_run w (run_id st) = Some run \<and> cancel_requested run \<longrightarrow>
          evaluate st w now
            = Inr (st\<lparr>should_finish := True, finish_status := Some RunCanceled,
                      finish_reason := Some ''cancel_requested''\<rparr>))"
  using evaluate_decision [of st now w] evaluate_cancel [of w st _ now]
  by blast

lemma get_run_w_cancel: "get_run w_cancel ''run-1'' = Some (run1\<lparr>cancel_requested := True\<rparr>)"
  by (simp add: w_cancel_def request_cancel_def request_cancel_run_def update_run_def w1_def
      get_run_def)

theorem monitor_first_match_wins_witness:
  "run_started_monotonic st1 \<le> 5
   \<and> get_run w_cancel (run_id st1) = Some (run1\<lparr>cancel_requested := True\<rparr>)
   \<and> cancel_requested (run1\<lparr>cancel_requested := True\<rparr>)
   \<and> evaluate st1 w_cancel 5
       = Inr (st1\<lparr>should_finish := True, finish_status := Some RunCanceled,
                  finish_reason := Some ''cancel_requested''\<rparr>)
   \<and> first_match (spec_guards st1 (get_run w_cancel (run_id st1))
                    (5 - run_started_monotonic st1)) = 2"
proof -
  have rid: "run_id st1 = ''run-1''" and mono: "run_started_monotonic st1 \<le> 5"
    by (simp_all add: st1_def)
  have g: "get_run w_cancel (run_id st1) = Some (run1\<lparr>cancel_requested := True\<rparr>)"
    by (simp add: rid get_run_w_cancel)
  from monitor_first_match_wins [of st1 5 w_cancel] g
  have ev: "evaluate st1 w_cancel 5
       = Inr (st1\<lparr>should_finish := True, finish_status := Some RunCanceled,
                  finish_reason := Some ''cancel_requested''\<rparr>)"
    by simp
  have "first_match (spec_guards st1 (get_run w_cancel (run_id st1))
                    (5 - run_started_monotonic st1)) = 2"
    unfolding g by (simp add: spec_guards_def Let_def)
  with mono g ev show ?thesis by simp
qed

section \<open>Dependencies that name no node\<close>

lemma missing_dep_not_runnable:
  assumes "dep \<in> set (depends_on n)" "dep \<notin> node_id ` set ns"
  shows "\<not> runnable ns n"
proof
  assume "runnable ns n"
  with assms(1) obtain d where "dep_node ns dep = Some d"
    by (auto simp: runnable_def)
  moreover from assms(2) have "dep_node ns dep = None"
    by (simp add: dep_node_None)
  ultimately show False by simp
qed

lemma evaluate_deadlock:
  assumes run: "get_run w (run_id st) = Some run"
    and no_cancel: "\<not> cancel_requested run"
    and in_time: "py_int (now - run_started_monotonic st) < c_timeout_s (constraints st)"
    and in_budget: "total_usd run < budget_usd (constraints st)"
    and none_runnable: "\<forall>m \<in> set (nodes (dag st)). \<not> runnable (nodes (dag st)) m"
    and none_running: "\<forall>m \<in> set (nodes (dag st)). n_status m \<noteq> Running"
    and pending: "n \<in> set (nodes (dag st))" "n_status n = Pending"
  shows "evaluate st w now
           = Inr (st\<lparr>should_finish := True, finish_status := Some RunFailed,
                     finish_reason := Some ''dependency_deadlock'', reflection_needed := True,
                     reflection_reason := Some ''No runnable steps due to unmet dependencies'',
                     failure_mode :=
                       Some (case failure_mode st of None \<Rightarrow> FmOther | Some m \<Rightarrow> m)\<rparr>)"
proof -
  let ?ss = "map n_status (nodes (dag st))"
  from no_cancel have c2: "cancel_requested run = False"
    by simp
  from in_time have c3: "(c_timeout_s (constraints st) \<le> py_int (now - run_started_monotonic st)) = False"
    by simp
  from in_budget have c4: "(budget_usd (constraints st) \<le> total_usd run) = False"
    by simp
  from pending have "\<exists>m \<in> set (nodes (dag st)). n_status m \<notin> {Completed, Skipped}"
    by (intro bexI [of _ n]) simp_all
  then have c5: "(list_all (\<lambda>s. s \<in> {Completed, Skipped}) ?ss \<and> ?ss \<noteq> []) = False"
    by (simp add: statuses_all)
  from none_runnable none_running pending
  have c6: "(\<not> has_runnable_nodes (dag st) \<and> list_ex (\<lambda>s. s = Pending) ?ss
              \<and> \<not> list_ex (\<lambda>s. s = Running) ?ss) = True"
    by (auto simp: statuses_ex has_runnable_nodes_iff)
  show ?thesis
    unfolding evaluate_def run option.case Let_def c2 c3 c4 c5 c6 if_False if_True ..
qed

text \<open>
  Claim C10 (amended).  When a pending node lists a dependency that no node of the DAG
  carries, the executor's selection and the monitor's runnable check both treat the
  dependency as not completed: the node is not runnable, \<open>next_runnable_node\<close> never
  returns it, and \<open>has_runnable_nodes\<close> holds only if some other node is runnable; both
  are total (the lookup of a missing id yields no node instead of raising).  If moreover
  the run row exists, no other node is runnable, none is running, and the rules for
  cancellation, timeout and budget do not apply, the decision of the monitor is to finish
  the run as failed with reason \<^verbatim>\<open>dependency_deadlock\<close>.
\<close>

theorem missing_dependency_blocks_node:
  assumes n: "n \<in> set (nodes g)" and pend: "n_status n = Pending"
    and dep: "dep \<in> set (depends_on n)" and missing: "dep \<notin> node_id ` set (nodes g)"
  shows "\<not> runnable (nodes g) n
       \<and> (\<forall>i. next_runnable_node g = Some i \<longrightarrow> i < length (nodes g) \<and> nodes g ! i \<noteq> n)
       \<and> (has_runnable_nodes g \<longleftrightarrow> (\<exists>m \<in> set (nodes g). m \<noteq> n \<and> runnable (nodes g) m))
       \<and> (\<forall>st w now run.
             dag st = g \<and> get_run w (run_id st) = Some run \<and> \<not> cancel_requested run
             \<and> py_int (now - run_started_monotonic st) < c_timeout_s (constraints st)
             \<and> total_usd run < budget_usd (constraints st)
             \<and> (\<forall>m \<in> set (nodes g). m \<noteq> n \<longrightarrow> \<not> runnable (nodes g) m)
             \<and> (\<forall>m \<in> set (nodes g). n_status m \<noteq> Running)
             \<longrightarrow> evaluate st w now
                  = Inr (st\<lparr>should_finish := True, finish_status := Some RunFailed,
                     finish_reason := Some ''dependency_deadlock'', reflection_needed := True,
                     reflection_reason := Some ''No runnable steps due to unmet dependencies'',
                     failure_mode :=
                       Some (case failure_mode st of None \<Rightarrow> FmOther | Some m \<Rightarrow> m)\<rparr>))"
proof (intro conjI allI impI)
  show nr: "\<not> runnable (nodes g) n"
    using dep missing by (rule missing_dep_not_runnable)
  show "has_runnable_nodes g \<longleftrightarrow> (\<exists>m \<in> set (nodes g). m \<noteq> n \<and> runnable (nodes g) m)"
    using nr by (auto simp: has_runnable_nodes_iff)
  {
    fix i
    assume sel: "next_runnable_node g = Some i"
    from next_runnable_node_Some [OF sel]
    show "i < length (nodes g)" and r: "nodes g ! i \<noteq> n"
      using nr by auto
  }
  fix st :: run_state and w now run
  assume h: "dag st = g \<and> get_run w (run_id st) = Some run \<and> \<not> cancel_requested run
             \<and> py_int (now - run_started_monotonic st) < c_timeout_s (constraints st)
             \<and> total_usd run < budget_usd (constraints st)
             \<and> (\<forall>m \<in> set (nodes g). m \<noteq> n \<longrightarrow> \<not> runnable (nodes g) m)
             \<and> (\<forall>m \<in> set (nodes g). n_status m \<noteq> Running)"
  with nr have none: "\<forall>m \<in> set (nodes (dag st)). \<not> runnable (nodes (dag st)) m"
    by auto
  from h n pend show "evaluate st w now
                  = Inr (st\<lparr>should_finish := True, finish_status := Some RunFailed,
                     finish_reason := Some ''dependency_deadlock'', reflection_needed := True,
                     reflection_reason := Some ''No runnable steps due to unmet dependencies'',
                     failure_mode :=
                       Some (case failure_mode st of None \<Rightarrow> FmOther | Some m \<Rightarrow> m)\<rparr>)"
    by (intro evaluate_deadlock [OF _ _ _ _ none, of w run now n]) auto
qed

theorem missing_dependency_blocks_node_witness:
  "n_blocked \<in> set (nodes (dag st_blocked)) \<and> n_status n_blocked = Pending
   \<and> ''ghost'' \<in> set (depends_on n_blocked)
   \<and> ''ghost'' \<notin> node_id ` set (nodes (dag st_blocked))
   \<and> next_runnable_node (dag st_blocked) = None
   \<and> \<not> has_runnable_nodes (dag st_blocked)
   \<and> evaluate st_blocked w1 1
       = Inr (st_blocked\<lparr>should_finish := True, finish_status := Some RunFailed,
                     finish_reason := Some ''dependency_deadlock'', reflection_needed := True,
                     reflection_reason := Some ''No runnable steps due to unmet dependencies'',
                     failure_mode := Some FmOther\<rparr>)"
proof -
  have a: "n_blocked \<in> set (nodes (dag st_blocked))" "n_status n_blocked = Pending"
    "''ghost'' \<in> set (depends_on n_blocked)"
    "''ghost'' \<notin> node_id ` set (nodes (dag st_blocked))"
    by (simp_all add: st_blocked_def n_blocked_def)
  note inst = missing_dependency_blocks_node [OF a]
  have facts: "get_run w1 (run_id st_blocked) = Some run1" "\<not> cancel_requested run1"
    "py_int (1 - run_started_monotonic st_blocked) < c_timeout_s (constraints st_blocked)"
    "total_usd run1 < budget_usd (constraints st_blocked)"
    "failure_mode st_blocked = None"
    by (simp_all add: st_blocked_def st1_def w1_def get_run_def run1_def py_int_def cons1_def)
  have only: "\<forall>m \<in> set (nodes (dag st_blocked)). m \<noteq> n_blocked \<longrightarrow> \<not> runnable (nodes (dag st_blocked)) m"
    "\<forall>m \<in> set (nodes (dag st_blocked)). n_status m \<noteq> Running"
    by (simp_all add: st_blocked_def n_blocked_def)
  from inst facts only have ev: "evaluate st_blocked w1 1
       = Inr (st_blocked\<lparr>should_finish := True, finish_status := Some RunFailed,
                     finish_reason := Some ''dependency_deadlock'', reflection_needed := True,
                     reflection_reason := Some ''No runnable steps due to unmet dependencies'',
                     failure_mode := Some FmOther\<rparr>)"
    by simp
  from inst only have "\<not> has_runnable_nodes (dag st_blocked)"
    by blast
  with a ev next_blocked show ?thesis
    by simp
qed

text \<open>
  The deadlock path is not the only way such a run ends: the rules that precede it in the
  monitor still win.  The run below has one pending node with a missing dependency and a
  cancel request; its worker ends it as canceled with reason \<^verbatim>\<open>cancel_requested\<close>.
\<close>

theorem missing_dependency_run_canceled:
  "n_blocked \<in> set (nodes (r_dag (the (runs w_blocked_cancel ''run-1''))))
   \<and> n_status n_blocked = Pending
   \<and> ''ghost'' \<in> set (depends_on n_blocked)
   \<and> ''ghost'' \<notin> node_id ` set (nodes (r_dag (the (runs w_blocked_cancel ''run-1''))))
   \<and> run_loop cfg0 env0 3 2 0 9 ''run-1'' ''req-1'' w_blocked_cancel \<noteq> None
   \<and> r_status (the (runs (the (run_loop cfg0 env0 3 2 0 9 ''run-1'' ''req-1'' w_blocked_cancel))
                      ''run-1'')) = RunCanceled
   \<and> last (events (the (run_loop cfg0 env0 3 2 0 9 ''run-1'' ''req-1'' w_blocked_cancel)))
       = \<lparr>ev_run_id = ''run-1'', ev_step_id = None, ev_type = ''run_finished'',
          ev_payload = RunFinishedP RunCanceled ''cancel_requested''\<rparr>"
  by code_simp

section \<open>Finish: closing the open steps of a canceled run\<close>

lemma upsert_step_rows:
  assumes "r \<in> set (steps (upsert_step w p))"
  shows "r = p \<or> (r \<in> set (steps w) \<and> \<not> same_key p r)"
  using assms by (auto simp: upsert_step_def split: if_splits)

lemma cancel_fold_closes:
  assumes "\<forall>r \<in> set (steps w). s_run_id r = rid \<and> s_status r \<in> {Pending, Running}
             \<longrightarrow> (\<exists>s \<in> set L. same_key s r \<and> s_status s \<in> {Pending, Running})"
  shows "\<forall>r \<in> set (steps (fold (cancel_step now) L w)).
            s_run_id r = rid \<longrightarrow> s_status r \<notin> {Pending, Running}"
  using assms
proof (induction L arbitrary: w)
  case Nil
  then show ?case by auto
next
  case (Cons s L)
  have "\<forall>r \<in> set (steps (cancel_step now s w)). s_run_id r = rid \<and> s_status r \<in> {Pending, Running}
             \<longrightarrow> (\<exists>s' \<in> set L. same_key s' r \<and> s_status s' \<in> {Pending, Running})"
  proof (intro ballI impI)
    fix r
    assume r: "r \<in> set (steps (cancel_step now s w))"
      and opn: "s_run_id r = rid \<and> s_status r \<in> {Pending, Running}"
    show "\<exists>s' \<in> set L. same_key s' r \<and> s_status s' \<in> {Pending, Running}"
    proof (cases "s_status s \<in> {Pending, Running}")
      case False
      with r have "r \<in> set (steps w)"
        by (simp add: cancel_step_def)
      with Cons.prems opn obtain s' where "s' \<in> set (s # L)" "same_key s' r"
        "s_status s' \<in> {Pending, Running}"
        by blast
      with False show ?thesis by auto
    next
      case True
      define p where "p = \<lparr>s_id = s_id s, s_run_id = s_run_id s, s_node_id = s_node_id s,
              s_status = Canceled, s_attempts = s_attempts s,
              s_max_retries = s_max_retries s, s_started_at = s_started_at s,
              s_ended_at = Some now, s_input = s_input s, s_output = s_output s,
              s_error = Some canceled_error, s_cost = s_cost s, s_logs = s_logs s\<rparr>"
      from True have cs: "cancel_step now s w = upsert_step w p"
        by (simp add: cancel_step_def p_def)
      have key: "same_key p x \<longleftrightarrow> same_key s x" for x
        by (simp add: same_key_def p_def)
      from r cs upsert_step_rows [of r w p] have "r = p \<or> (r \<in> set (steps w) \<and> \<not> same_key p r)"
        by simp
      moreover from opn have "r \<noteq> p"
        by (auto simp: p_def)
      ultimately have rw: "r \<in> set (steps w)" and nk: "\<not> same_key s r"
        by (simp_all add: key)
      from Cons.prems rw opn obtain s' where "s' \<in> set (s # L)" "same_key s' r"
        "s_status s' \<in> {Pending, Running}"
        by blast
      with nk show ?thesis by auto
    qed
  qed
  from Cons.IH [OF this] show ?case by simp
qed

lemma cancel_fold_runs [simp]:
  "runs (fold (cancel_step now) L w) = runs w"
  "events (fold (cancel_step now) L w) = events w"
  by (induction L arbitrary: w) (simp_all add: cancel_step_def)

lemma mark_open_steps_canceled_steps:
  "\<forall>r \<in> set (steps (snd (mark_open_steps_canceled (st, w) now))).
      s_run_id r = run_id st \<longrightarrow> s_status r \<notin> {Pending, Running}"
proof -
  have "\<forall>r \<in> set (steps w). s_run_id r = run_id st \<and> s_status r \<in> {Pending, Running}
             \<longrightarrow> (\<exists>s \<in> set (list_steps w (run_id st)). same_key s r \<and> s_status s \<in> {Pending, Running})"
    by (auto simp: list_steps_def same_key_def)
  from cancel_fold_closes [OF this, of now] show ?thesis
    by (simp add: mark_open_steps_canceled_def Let_def)
qed

lemma closed_status: "s \<notin> {Pending, Running} \<longleftrightarrow> s \<in> {Completed, Failed, Skipped, Canceled}"
  by (cases s) simp_all

text \<open>
  Claim C1 (amended).  When the finish transition writes status canceled, every step row
  of the run and every node of the DAG ends in one of completed, failed, skipped and
  canceled: none stays pending or running.  When it writes another status (failed,
  completed) it leaves the step rows as they are.
\<close>

theorem finish_node_canceled_closes_steps:
  "(finish_status st = Some RunCanceled \<longrightarrow>
      (\<forall>r \<in> set (steps (snd (finish_node (st, w) now))).
          s_run_id r = run_id st \<longrightarrow> s_status r \<in> {Completed, Failed, Skipped, Canceled})
    \<and> (\<forall>r \<in> set (list_steps (snd (finish_node (st, w) now)) (run_id st)).
          s_status r \<in> {Completed, Failed, Skipped, Canceled})
    \<and> (\<forall>n \<in> set (nodes (dag (fst (finish_node (st, w) now)))).
          n_status n \<in> {Completed, Failed, Skipped, Canceled})
    \<and> (\<forall>run. get_run w (run_id st) = Some run \<longrightarrow>
          map_option r_status (get_run (snd (finish_node (st, w) now)) (run_id st))
            = Some RunCanceled))
   \<and> (finish_status st \<noteq> Some RunCanceled \<longrightarrow>
        steps (snd (finish_node (st, w) now)) = steps w
      \<and> (\<forall>run. get_run w (run_id st) = Some run \<longrightarrow>
            map_option r_status (get_run (snd (finish_node (st, w) now)) (run_id st))
              = Some (case finish_status st of None \<Rightarrow> RunFailed | Some s \<Rightarrow> s)))"
proof (intro conjI impI)
  assume c: "finish_status st = Some RunCanceled"
  obtain st1 w1 where m: "mark_open_steps_canceled (st, w) now = (st1, w1)"
    by (cases "mark_open_steps_canceled (st, w) now")
  have rid: "run_id st1 = run_id st" and rs: "runs w1 = runs w"
    and ns: "nodes (dag st1) = map (\<lambda>n. if n_status n \<in> {Pending, Running}
                            then n\<lparr>n_status := Canceled, last_error := Some canceled_error\<rparr>
                            else n) (nodes (dag st))"
    using m by (auto simp: mark_open_steps_canceled_def Let_def)
  have st: "steps (snd (finish_node (st, w) now)) = steps w1"
    and fs: "fst (finish_node (st, w) now) = st1"
    and rn: "runs (snd (finish_node (st, w) now))
              = runs (update_run w1 (run_id st)
                        [SetStatus RunCanceled, SetEndedAt (Some now), SetCancelRequested False,
                         SetDag (dag st1)])"
    using c m by (simp_all add: finish_node_def Let_def rid)
  from mark_open_steps_canceled_steps [of st w now] m
  have closed: "\<forall>r \<in> set (steps w1). s_run_id r = run_id st \<longrightarrow> s_status r \<notin> {Pending, Running}"
    by simp
  then show a: "\<forall>r \<in> set (steps (snd (finish_node (st, w) now))).
          s_run_id r = run_id st \<longrightarrow> s_status r \<in> {Completed, Failed, Skipped, Canceled}"
    unfolding st closed_status .
  then show "\<forall>r \<in> set (list_steps (snd (finish_node (st, w) now)) (run_id st)).
          s_status r \<in> {Completed, Failed, Skipped, Canceled}"
    by (simp add: list_steps_def)
  show "\<forall>n \<in> set (nodes (dag (fst (finish_node (st, w) now)))).
          n_status n \<in> {Completed, Failed, Skipped, Canceled}"
    unfolding fs ns closed_status [symmetric] by auto
  show "\<forall>run. get_run w (run_id st) = Some run \<longrightarrow>
          map_option r_status (get_run (snd (finish_node (st, w) now)) (run_id st))
            = Some RunCanceled"
    unfolding get_run_def rn by (simp add: update_run_def rs)
next
  assume c: "finish_status st \<noteq> Some RunCanceled"
  then have nc: "(case finish_status st of None \<Rightarrow> RunFailed | Some s \<Rightarrow> s) \<noteq> RunCanceled"
    by (cases "finish_status st") auto
  then show "steps (snd (finish_node (st, w) now)) = steps w"
    by (simp add: finish_node_def Let_def)
  from nc show "\<forall>run. get_run w (run_id st) = Some run \<longrightarrow>
            map_option r_status (get_run (snd (finish_node (st, w) now)) (run_id st))
              = Some (case finish_status st of None \<Rightarrow> RunFailed | Some s \<Rightarrow> s)"
    by (simp add: finish_node_def Let_def get_run_def update_run_def)
qed

lemma first_tick_view:
  "fst (execute_next cfg0 llm_ok ''u1'' 5 6 ''req-1'' (st1, w1)) = st_retrying
   \<and> get_run (snd (execute_next cfg0 llm_ok ''u1'' 5 6 ''req-1'' (st1, w1))) ''run-1''
       = get_run w_retrying ''run-1''
   \<and> steps (snd (execute_next cfg0 llm_ok ''u1'' 5 6 ''req-1'' (st1, w1))) = steps w_retrying
   \<and> events (snd (execute_next cfg0 llm_ok ''u1'' 5 6 ''req-1'' (st1, w1))) = events w_retrying"
  by code_simp

lemma w_retrying_steps: "map s_status (steps w_retrying) = [Pending]"
  by code_simp

lemma finished_steps: "map s_run_id (steps (snd (finish_node (st_canceling, w_retrying) 9))) = [''run-1'']"
  by code_simp

theorem finish_node_canceled_closes_steps_witness:
  "finish_status st_canceling = Some RunCanceled
   \<and> map s_status (steps w_retrying) = [Pending]
   \<and> map s_run_id (steps (snd (finish_node (st_canceling, w_retrying) 9))) = [''run-1'']
   \<and> list_all (\<lambda>r. s_status r \<in> {Completed, Failed, Skipped, Canceled})
        (steps (snd (finish_node (st_canceling, w_retrying) 9)))"
proof -
  let ?S = "steps (snd (finish_node (st_canceling, w_retrying) 9))"
  have c: "finish_status st_canceling = Some RunCanceled"
    by (simp add: st_canceling_def)
  have rid: "run_id st_canceling = ''run-1''"
    by code_simp
  from finish_node_canceled_closes_steps [of st_canceling w_retrying 9] c rid
  have closed: "\<forall>r \<in> set ?S. s_run_id r = ''run-1'' \<longrightarrow> s_status r \<in> {Completed, Failed, Skipped, Canceled}"
    by simp
  have "set (map s_run_id ?S) = {''run-1''}"
    by (simp add: finished_steps)
  then have "\<forall>r \<in> set ?S. s_run_id r = ''run-1''"
    by auto
  with closed have "list_all (\<lambda>r. s_status r \<in> {Completed, Failed, Skipped, Canceled}) ?S"
    by (simp add: list_all_iff)
  with c w_retrying_steps finished_steps show ?thesis by simp
qed

text \<open>
  A run that reaches the terminal state failed with a step row still pending: the first
  attempt on the only node fails and a retry is scheduled, then the monitor finds the
  timeout exceeded and the finish transition writes status failed.
\<close>

theorem timed_out_run_keeps_pending_step:
  "map_option (run_summary ''run-1'') (run_loop cfg0 env_late 5 2 0 9 ''run-1'' ''req-1'' w1)
     = Some (Some RunFailed, [(''execute_task'', Pending, 1, 1)],
             Some \<lparr>ev_run_id = ''run-1'', ev_step_id = None, ev_type = ''run_finished'',
                    ev_payload = RunFinishedP RunFailed ''timeout''\<rparr>)"
  by code_simp

section \<open>Retry of a failed run: the attempts counter\<close>

lemma reset_failed_steps_attempts:
  "map s_attempts (steps (snd (reset_failed_steps w rid))) = map s_attempts (steps w)"
  by (simp add: reset_failed_steps_def Let_def comp_def)

lemma retry_run_all_attempts:
  "map s_attempts (steps (snd (retry_run w rid None rq))) = map s_attempts (steps w)"
proof (cases "get_run w rid")
  case None
  then show ?thesis by (simp add: retry_run_def)
next
  case (Some run)
  obtain k w' where r: "reset_failed_steps w rid = (k, w')"
    by (cases "reset_failed_steps w rid")
  with reset_failed_steps_attempts [of w rid] have "map s_attempts (steps w') = map s_attempts (steps w)"
    by simp
  with Some r show ?thesis
    by (simp add: retry_run_def Let_def)
qed

lemma two_ticks_fail_step:
  "steps (snd (execute_next cfg0 llm_ok ''u2'' 5 6 ''req-1'' (st_retrying, w_retrying)))
     = steps w_failed"
  by code_simp

lemma retry_run_view:
  "fst (retry_run w_failed ''run-1'' None ''req-2'')
   \<and> get_run (snd (retry_run w_failed ''run-1'' None ''req-2'')) ''run-1'' = get_run w_retried ''run-1''
   \<and> steps (snd (retry_run w_failed ''run-1'' None ''req-2'')) = steps w_retried
   \<and> events (snd (retry_run w_failed ''run-1'' None ''req-2'')) = events w_retried
   \<and> cost_ledger (snd (retry_run w_failed ''run-1'' None ''req-2'')) = cost_ledger w_retried"
  by code_simp

lemma retried_failing_input:
  "run_summary ''run-1'' w_failed
       = (Some RunFailed, [(''execute_task'', Failed, 2, 1)],
          Some \<lparr>ev_run_id = ''run-1'', ev_step_id = None, ev_type = ''run_finished'',
                 ev_payload = RunFinishedP RunFailed ''steps_failed''\<rparr>)
   \<and> run_summary ''run-1'' (snd (retry_run w_failed ''run-1'' None ''req-2''))
       = (Some RunRunning, [(''execute_task'', Pending, 2, 1)],
          Some \<lparr>ev_run_id = ''run-1'', ev_step_id = None, ev_type = ''run_retry_requested'',
                 ev_payload = RunRetryRequestedP None ''req-2''\<rparr>)"
  by code_simp

text \<open>
  Claim C3 (defect of the code).  \<^verbatim>\<open>retry_run(run_id, None)\<close> leaves the attempts of
  every step row as they are: \<^verbatim>\<open>reset_failed_steps\<close> does not set them to 0, which
  \<^verbatim>\<open>reset_step\<close> does.  On the failed run of the retry test the failed step, at attempts 2
  of max_retries 1, is pending again with attempts still 2, and the run is running.
\<close>

theorem retry_run_keeps_attempts:
  "map s_attempts (steps (snd (retry_run w rid None rq))) = map s_attempts (steps w)
   \<and> run_summary ''run-1'' w_failed
       = (Some RunFailed, [(''execute_task'', Failed, 2, 1)],
          Some \<lparr>ev_run_id = ''run-1'', ev_step_id = None, ev_type = ''run_finished'',
                 ev_payload = RunFinishedP RunFailed ''steps_failed''\<rparr>)
   \<and> run_summary ''run-1'' (snd (retry_run w_failed ''run-1'' None ''req-2''))
       = (Some RunRunning, [(''execute_task'', Pending, 2, 1)],
          Some \<lparr>ev_run_id = ''run-1'', ev_step_id = None, ev_type = ''run_retry_requested'',
                 ev_payload = RunRetryRequestedP None ''req-2''\<rparr>)"
  using retry_run_all_attempts [of w rid rq] retried_failing_input
  by simp

text \<open>
  Claim C2 (defect of the code).  After \<^verbatim>\<open>retry_run(run_id, None)\<close> on that run the worker
  makes a third attempt on the step, which fails for good: the run is terminal (failed)
  with the step at attempts 3 and max_retries 1, above the bound \<open>max_retries + 1\<close>.
\<close>

theorem retried_step_exceeds_attempt_bound:
  "map_option (run_summary ''run-1'')
     (run_loop cfg0 env0 5 20 0 29 ''run-1'' ''req-2'' w_retried)
     = Some (Some RunFailed, [(''execute_task'', Failed, 3, 1)],
             Some \<lparr>ev_run_id = ''run-1'', ev_step_id = None, ev_type = ''run_finished'',
                    ev_payload = RunFinishedP RunFailed ''steps_failed''\<rparr>)"
  by code_simp

section \<open>The model hint of reflection\<close>







lemma hint_tick_view:
  "fst (execute_next cfg0 llm_echo ''u1'' 5 6 ''req-1'' (st_hint, w_two)) = st_hint_a
   \<and> get_run (snd (execute_next cfg0 llm_echo ''u1'' 5 6 ''req-1'' (st_hint, w_two))) ''run-1''
       = get_run w_hint_a ''run-1''
   \<and> steps (snd (execute_next cfg0 llm_echo ''u1'' 5 6 ''req-1'' (st_hint, w_two)))
       = steps w_hint_a
   \<and> events (snd (execute_next cfg0 llm_echo ''u1'' 5 6 ''req-1'' (st_hint, w_two)))
       = events w_hint_a"
  by code_simp


section \<open>The token counters of a run\<close>



lemma run_totals_same_runs: "runs w' = runs w \<Longrightarrow> run_totals w' rid = run_totals w rid"
  by (simp add: run_totals_def)







lemma create_run_totals:
  assumes "create_run w rid tsk tid cons now = Some w'"
  shows "run_totals w' rid = Some (0, 0, 0)"
  using assms by (auto simp: create_run_def run_totals_def split: option.splits)
















end
